theory Spec2Isabelle
  imports Complex_Main "HOL-Library.Sublist" "HOL-Library.AList"
begin

section \<open>Data models (common/data\_models.py)\<close>

text \<open>
  The four pydantic models become records with the source's field names. A Python
  \<^verbatim>\<open>str\<close> is a \<^typ>\<open>string\<close>; all strings (catalog, settings, window titles,
  typed search terms) are taken to be ASCII, where \<^verbatim>\<open>str.lower\<close> only touches the
  letters A to Z and \<^verbatim>\<open>quote_plus\<close> encodes one byte per character. A
  \<^verbatim>\<open>Dict[str, str]\<close> is an association list read through \<^const>\<open>map_of\<close>, a
  \<^verbatim>\<open>Dict[str, GameConfig]\<close> an association list in insertion order. The numbers of
  \<^verbatim>\<open>PopupConfig\<close> are only stored and compared, never computed with.
\<close>

record GameConfig =
  BaseUrl :: string
  NeedsSearch :: bool
  SearchTemplate :: "string option"
  KeywordMap :: "(string \<times> string) list option"

record HotkeyConfig =
  Key :: string
  Modifiers :: "string list"

record PopupConfig =
  Width :: real
  Height :: real
  Left :: real
  Top :: real

record AppSettings =
  Hotkey :: HotkeyConfig
  Popup :: PopupConfig

type_synonym catalog = "(string \<times> GameConfig) list"

section \<open>Python string operations used by the source\<close>

text \<open>\<^verbatim>\<open>ord(c)\<close>\<close>

definition py_ord :: "char \<Rightarrow> nat" where
  "py_ord c = of_char c"

definition lower_char :: "char \<Rightarrow> char" where
  "lower_char c = (if 65 \<le> py_ord c \<and> py_ord c \<le> 90 then char_of (py_ord c + 32) else c)"

text \<open>\<^verbatim>\<open>s.lower()\<close>\<close>

definition lower :: "string \<Rightarrow> string" where
  "lower s = map lower_char s"

text \<open>\<^verbatim>\<open>a in b\<close> on strings: \<open>a\<close> occurs in \<open>b\<close> as a contiguous run.\<close>

definition str_in :: "string \<Rightarrow> string \<Rightarrow> bool" where
  "str_in a b = sublist a b"

text \<open>
  \<^verbatim>\<open>s.replace(old, new)\<close>: every occurrence of \<open>old\<close>, left to right, without
  overlap; an empty \<open>old\<close> matches before every character and at the end.
\<close>

function replace_str :: "string \<Rightarrow> string \<Rightarrow> string \<Rightarrow> string" where
  "replace_str old new s =
     (if old = [] then new @ concat (map (\<lambda>c. c # new) s)
      else if s = [] then []
      else if prefix old s then new @ replace_str old new (drop (length old) s)
      else hd s # replace_str old new (tl s))"
  by pat_completeness auto
termination
  by (relation "measure (\<lambda>(old, new, s). length s)") auto

text \<open>
  \<^verbatim>\<open>urllib.parse.quote_plus(s)\<close> with its default arguments: the unreserved
  characters stay, a space becomes a plus sign, every other byte becomes a percent
  sign and two upper-case hexadecimal digits.
\<close>

definition always_safe :: "char \<Rightarrow> bool" where
  "always_safe c \<longleftrightarrow>
     (65 \<le> py_ord c \<and> py_ord c \<le> 90) \<or> (97 \<le> py_ord c \<and> py_ord c \<le> 122) \<or>
     (48 \<le> py_ord c \<and> py_ord c \<le> 57) \<or> c \<in> set ''_.-~''"

definition hex_digit :: "nat \<Rightarrow> char" where
  "hex_digit n = ''0123456789ABCDEF'' ! (n mod 16)"

definition quote_char :: "char \<Rightarrow> string" where
  "quote_char c =
     (if c = CHR '' '' then ''+''
      else if always_safe c then [c]
      else [CHR ''%'', hex_digit (py_ord c div 16), hex_digit (py_ord c)])"

definition quote_plus :: "string \<Rightarrow> string" where
  "quote_plus s = concat (map quote_char s)"

section \<open>URL building (AppLogic.\_build\_url)\<close>

text \<open>
  \<^verbatim>\<open>dict.get(key, default)\<close> on an association list.
\<close>

definition dict_get :: "(string \<times> string) list \<Rightarrow> string \<Rightarrow> string \<Rightarrow> string" where
  "dict_get d k dflt = (case map_of d k of Some v \<Rightarrow> v | None \<Rightarrow> dflt)"

text \<open>
  The keyword-map step of \<^verbatim>\<open>_build_url\<close>: when \<^verbatim>\<open>KeywordMap\<close> is neither
  \<^verbatim>\<open>None\<close> nor empty, the term becomes
  \<^verbatim>\<open>KeywordMap.get(search_term.lower(), search_term)\<close>.
\<close>

definition apply_keyword_map :: "GameConfig \<Rightarrow> string \<Rightarrow> string" where
  "apply_keyword_map game_cfg search_term =
     (case KeywordMap game_cfg of
        None \<Rightarrow> search_term
      | Some kvs \<Rightarrow>
          if kvs = [] then search_term else dict_get kvs (lower search_term) search_term)"

text \<open>
  \<^verbatim>\<open>if search_term:\<close> and \<^verbatim>\<open>if game_cfg.SearchTemplate:\<close> are false for
  \<^verbatim>\<open>None\<close> and for the empty string alike. \<^verbatim>\<open>NeedsSearch\<close> is not read.
\<close>

definition build_url :: "GameConfig \<Rightarrow> string option \<Rightarrow> string" where
  "build_url game_cfg search_term =
     (case search_term of
        None \<Rightarrow> BaseUrl game_cfg
      | Some t \<Rightarrow>
          if t = [] then BaseUrl game_cfg
          else
            (let mapped_term = apply_keyword_map game_cfg t in
             case SearchTemplate game_cfg of
               None \<Rightarrow> BaseUrl game_cfg @ quote_plus mapped_term
             | Some template \<Rightarrow>
                 if template = [] then BaseUrl game_cfg @ quote_plus mapped_term
                 else replace_str ''{query}'' (quote_plus mapped_term) template))"

section \<open>Title matching (the loop of AppLogic.\_handle\_hotkey\_press\_thread\_safe)\<close>

text \<open>
  \<^verbatim>\<open>for game_name, game_cfg in self.game_configs.items():\<close> with its
  \<^verbatim>\<open>break\<close> at the first name whose lower-cased form occurs in the lower-cased
  title.
\<close>

definition name_in_title :: "string \<Rightarrow> string \<Rightarrow> bool" where
  "name_in_title game_name active_window_title =
     str_in (lower game_name) (lower active_window_title)"

fun match_game :: "string \<Rightarrow> catalog \<Rightarrow> (string \<times> GameConfig) option" where
  "match_game active_window_title [] = None"
| "match_game active_window_title ((game_name, game_cfg) # rest) =
     (if name_in_title game_name active_window_title
      then Some (game_name, game_cfg)
      else match_game active_window_title rest)"

section \<open>Configuration store (config\_manager.py)\<close>

text \<open>
  What \<^verbatim>\<open>json.load\<close> returns: a JSON object is a Python dict, kept here as an
  association list in document order.
\<close>

datatype json =
    JNull
  | JBool bool
  | JInt int
  | JFloat real
  | JStr string
  | JArr "json list"
  | JObj "(string \<times> json) list"

text \<open>
  A file of the configuration store: absent, present but not openable, present with
  text that \<^verbatim>\<open>json.load\<close> rejects, or present with a JSON document.
\<close>

datatype file_state = Missing | Unreadable | Malformed | Document json

datatype error = OSError | TypeError | AttributeError | ValidationError

record fs =
  user_config_dir_exists :: bool
  makedirs_ok :: bool
  user_settings_file :: file_state
  user_settings_writable :: bool
  default_settings_file :: file_state
  default_games_file :: file_state

subsection \<open>Validation of the pydantic models\<close>

text \<open>
  \<^verbatim>\<open>Model(**data)\<close> first needs \<open>data\<close> to be a mapping (a \<^verbatim>\<open>TypeError\<close>
  otherwise, raised by the call itself); then pydantic checks the keyword arguments
  against the declared fields (a \<^verbatim>\<open>ValidationError\<close> otherwise). The checks
  below accept the JSON types the declarations name; unknown keys are ignored and
  absent optional fields take their declared defaults. Pydantic's lax coercions (a
  numeric string for a \<^verbatim>\<open>float\<close>, 0 or 1 for a \<^verbatim>\<open>bool\<close>) are left out: the
  documents considered here hold values of the declared JSON types or of plainly
  different ones.
\<close>

definition field :: "(string \<times> json) list \<Rightarrow> string \<Rightarrow> json option" where
  "field kvs k = map_of kvs k"

definition as_str :: "json \<Rightarrow> string option" where
  "as_str j = (case j of JStr t \<Rightarrow> Some t | _ \<Rightarrow> None)"

definition as_float :: "json \<Rightarrow> real option" where
  "as_float j = (case j of JInt n \<Rightarrow> Some (of_int n) | JFloat r \<Rightarrow> Some r | _ \<Rightarrow> None)"

definition as_bool :: "json \<Rightarrow> bool option" where
  "as_bool j = (case j of JBool b \<Rightarrow> Some b | _ \<Rightarrow> None)"

fun all_some :: "'a option list \<Rightarrow> 'a list option" where
  "all_some [] = Some []"
| "all_some (None # _) = None"
| "all_some (Some x # xs) = (case all_some xs of None \<Rightarrow> None | Some ys \<Rightarrow> Some (x # ys))"

definition as_str_list :: "json \<Rightarrow> string list option" where
  "as_str_list j = (case j of JArr js \<Rightarrow> all_some (map as_str js) | _ \<Rightarrow> None)"

definition as_str_dict :: "json \<Rightarrow> (string \<times> string) list option" where
  "as_str_dict j =
     (case j of
        JObj kvs \<Rightarrow>
          (case all_some (map (\<lambda>(k, v). as_str v) kvs) of
             None \<Rightarrow> None
           | Some vs \<Rightarrow> Some (zip (map fst kvs) vs))
      | _ \<Rightarrow> None)"

text \<open>A field with a default: absent gives the default, present must validate.\<close>

definition with_default :: "'a \<Rightarrow> (json \<Rightarrow> 'a option) \<Rightarrow> json option \<Rightarrow> 'a option" where
  "with_default d conv j = (case j of None \<Rightarrow> Some d | Some v \<Rightarrow> conv v)"

text \<open>An \<^verbatim>\<open>Optional[T] = None\<close> field: absent or \<^verbatim>\<open>null\<close> gives \<^verbatim>\<open>None\<close>.\<close>

definition optional :: "(json \<Rightarrow> 'a option) \<Rightarrow> json option \<Rightarrow> 'a option option" where
  "optional conv j =
     (case j of
        None \<Rightarrow> Some None
      | Some JNull \<Rightarrow> Some None
      | Some v \<Rightarrow> (case conv v of None \<Rightarrow> None | Some x \<Rightarrow> Some (Some x)))"

definition validate_GameConfig :: "(string \<times> json) list \<Rightarrow> GameConfig option" where
  "validate_GameConfig kvs =
     (case (case field kvs ''BaseUrl'' of None \<Rightarrow> None | Some v \<Rightarrow> as_str v,
            with_default True as_bool (field kvs ''NeedsSearch''),
            optional as_str (field kvs ''SearchTemplate''),
            optional as_str_dict (field kvs ''KeywordMap'')) of
        (Some b, Some n, Some t, Some m) \<Rightarrow>
          Some \<lparr>BaseUrl = b, NeedsSearch = n, SearchTemplate = t, KeywordMap = m\<rparr>
      | _ \<Rightarrow> None)"

definition validate_HotkeyConfig :: "(string \<times> json) list \<Rightarrow> HotkeyConfig option" where
  "validate_HotkeyConfig kvs =
     (case (case field kvs ''Key'' of None \<Rightarrow> None | Some v \<Rightarrow> as_str v,
            with_default [] as_str_list (field kvs ''Modifiers'')) of
        (Some k, Some ms) \<Rightarrow> Some \<lparr>Key = k, Modifiers = ms\<rparr>
      | _ \<Rightarrow> None)"

definition validate_PopupConfig :: "(string \<times> json) list \<Rightarrow> PopupConfig option" where
  "validate_PopupConfig kvs =
     (case (with_default 800 as_float (field kvs ''Width''),
            with_default 600 as_float (field kvs ''Height''),
            with_default 100 as_float (field kvs ''Left''),
            with_default 100 as_float (field kvs ''Top'')) of
        (Some w, Some h, Some l, Some t) \<Rightarrow>
          Some \<lparr>Width = w, Height = h, Left = l, Top = t\<rparr>
      | _ \<Rightarrow> None)"

text \<open>A nested model field: required, and its value must be an object that validates.\<close>

definition nested :: "((string \<times> json) list \<Rightarrow> 'a option) \<Rightarrow> json option \<Rightarrow> 'a option" where
  "nested validate j = (case j of Some (JObj kvs) \<Rightarrow> validate kvs | _ \<Rightarrow> None)"

definition validate_AppSettings :: "(string \<times> json) list \<Rightarrow> AppSettings option" where
  "validate_AppSettings kvs =
     (case (nested validate_HotkeyConfig (field kvs ''Hotkey''),
            nested validate_PopupConfig (field kvs ''Popup'')) of
        (Some h, Some p) \<Rightarrow> Some \<lparr>Hotkey = h, Popup = p\<rparr>
      | _ \<Rightarrow> None)"

text \<open>\<^verbatim>\<open>Model(**data)\<close>\<close>

definition construct :: "((string \<times> json) list \<Rightarrow> 'a option) \<Rightarrow> json \<Rightarrow> error + 'a" where
  "construct validate data =
     (case data of
        JObj kvs \<Rightarrow> (case validate kvs of None \<Rightarrow> Inl ValidationError | Some m \<Rightarrow> Inr m)
      | _ \<Rightarrow> Inl TypeError)"

text \<open>\<^verbatim>\<open>settings.model_dump_json(indent=4)\<close>, as the document a later load reads.\<close>

definition model_dump_json :: "AppSettings \<Rightarrow> json" where
  "model_dump_json settings =
     JObj [(''Hotkey'', JObj [(''Key'', JStr (Key (Hotkey settings))),
                              (''Modifiers'', JArr (map JStr (Modifiers (Hotkey settings))))]),
           (''Popup'', JObj [(''Width'', JFloat (Width (Popup settings))),
                             (''Height'', JFloat (Height (Popup settings))),
                             (''Left'', JFloat (Left (Popup settings))),
                             (''Top'', JFloat (Top (Popup settings)))])]"

subsection \<open>ConfigManager\<close>

definition ensure_config_dir_exists :: "fs \<Rightarrow> error + fs" where
  "ensure_config_dir_exists d =
     (if \<not> user_config_dir_exists d then
        (if makedirs_ok d then Inr (d\<lparr>user_config_dir_exists := True\<rparr>) else Inl OSError)
      else Inr d)"

definition get_default_hotkey_config :: HotkeyConfig where
  "get_default_hotkey_config = \<lparr>Key = ''F1'', Modifiers = [''Ctrl'']\<rparr>"

definition get_default_popup_config :: PopupConfig where
  "get_default_popup_config = \<lparr>Width = 800, Height = 600, Left = 100, Top = 100\<rparr>"

definition default_settings :: AppSettings where
  "default_settings = \<lparr>Hotkey = get_default_hotkey_config, Popup = get_default_popup_config\<rparr>"

text \<open>
  \<^verbatim>\<open>save_settings\<close>: the directory check may raise; a failing write is logged and
  swallowed, leaving the file as it was.
\<close>

definition save_settings :: "fs \<Rightarrow> AppSettings \<Rightarrow> error + fs" where
  "save_settings d settings =
     (case ensure_config_dir_exists d of
        Inl e \<Rightarrow> Inl e
      | Inr d' \<Rightarrow>
          if user_settings_writable d'
          then Inr (d'\<lparr>user_settings_file := Document (model_dump_json settings)\<rparr>)
          else Inr d')"

text \<open>\<^verbatim>\<open>save_settings(default_settings); return default_settings\<close>\<close>

definition save_and_return_defaults :: "fs \<Rightarrow> error + (AppSettings \<times> fs)" where
  "save_and_return_defaults d =
     (case save_settings d default_settings of
        Inl e \<Rightarrow> Inl e
      | Inr d' \<Rightarrow> Inr (default_settings, d'))"

text \<open>
  The \<^verbatim>\<open>try\<close> block of \<^verbatim>\<open>load_settings\<close>. Its handlers are
  \<^verbatim>\<open>FileNotFoundError\<close>, \<^verbatim>\<open>json.JSONDecodeError\<close> and
  \<^verbatim>\<open>ValidationError\<close>; any other exception leaves the function. The files
  considered are decodable text, so that \<^const>\<open>Malformed\<close> is text on which
  \<^verbatim>\<open>json.load\<close> raises \<^verbatim>\<open>JSONDecodeError\<close>.
\<close>

definition read_user_settings :: "fs \<Rightarrow> error + (AppSettings \<times> fs)" where
  "read_user_settings d =
     (case user_settings_file d of
        Missing \<Rightarrow> save_and_return_defaults d
      | Unreadable \<Rightarrow> Inl OSError
      | Malformed \<Rightarrow> save_and_return_defaults d
      | Document data \<Rightarrow>
          (case construct validate_AppSettings data of
             Inr settings \<Rightarrow> Inr (settings, d)
           | Inl ValidationError \<Rightarrow> save_and_return_defaults d
           | Inl e \<Rightarrow> Inl e))"

text \<open>
  \<^verbatim>\<open>shutil.copy(default_settings_path, user_settings_path)\<close> succeeds when the
  shipped file can be read and the user file can be written.
\<close>

definition copy_default_settings :: "fs \<Rightarrow> fs option" where
  "copy_default_settings d =
     (if default_settings_file d \<noteq> Unreadable \<and> user_settings_writable d
         \<and> user_config_dir_exists d
      then Some (d\<lparr>user_settings_file := default_settings_file d\<rparr>)
      else None)"

definition load_settings :: "fs \<Rightarrow> error + (AppSettings \<times> fs)" where
  "load_settings d =
     (if user_settings_file d = Missing then
        (if default_settings_file d \<noteq> Missing then
           (case copy_default_settings d of
              Some d' \<Rightarrow> read_user_settings d'
            | None \<Rightarrow> save_and_return_defaults d)
         else save_and_return_defaults d)
      else read_user_settings d)"

text \<open>
  The loop of \<^verbatim>\<open>load_game_configs\<close>: the inner handler catches
  \<^verbatim>\<open>ValidationError\<close> only; \<^verbatim>\<open>game_configs[game_name] = ...\<close> is a dict
  store.
\<close>

fun load_entries :: "(string \<times> json) list \<Rightarrow> catalog \<Rightarrow> error + catalog" where
  "load_entries [] game_configs = Inr game_configs"
| "load_entries ((game_name, config_data) # rest) game_configs =
     (case construct validate_GameConfig config_data of
        Inr cfg \<Rightarrow> load_entries rest (AList.update game_name cfg game_configs)
      | Inl ValidationError \<Rightarrow> load_entries rest game_configs
      | Inl e \<Rightarrow> Inl e)"

text \<open>
  \<^verbatim>\<open>load_game_configs\<close>: the outer handlers end in \<^verbatim>\<open>except Exception\<close>, so
  every failure inside the \<^verbatim>\<open>try\<close> block gives the empty dict.
\<close>

definition load_game_configs :: "fs \<Rightarrow> catalog" where
  "load_game_configs d =
     (case default_games_file d of
        Missing \<Rightarrow> []
      | Unreadable \<Rightarrow> []
      | Malformed \<Rightarrow> []
      | Document data \<Rightarrow>
          (case data of
             JObj kvs \<Rightarrow> (case load_entries kvs [] of Inl e \<Rightarrow> [] | Inr game_configs \<Rightarrow> game_configs)
           | _ \<Rightarrow> []))"

section \<open>Hotkey registration (core/hotkey\_manager.py)\<close>

definition modifier_map :: "(string \<times> string) list" where
  "modifier_map =
     [(''Ctrl'', ''ctrl''), (''Shift'', ''shift''), (''Alt'', ''alt''), (''Win'', ''cmd'')]"

text \<open>\<^verbatim>\<open>sep.join(parts)\<close>\<close>

fun join :: "string \<Rightarrow> string list \<Rightarrow> string" where
  "join sep [] = []"
| "join sep [x] = x"
| "join sep (x # y # ys) = x @ sep @ join sep (y # ys)"

definition isdigit :: "string \<Rightarrow> bool" where
  "isdigit t \<longleftrightarrow> t \<noteq> [] \<and> list_all (\<lambda>c. 48 \<le> py_ord c \<and> py_ord c \<le> 57) t"

definition int_of_digits :: "string \<Rightarrow> nat" where
  "int_of_digits t = foldl (\<lambda>n c. 10 * n + (py_ord c - 48)) 0 t"

definition is_f_key :: "string \<Rightarrow> bool" where
  "is_f_key key_lower \<longleftrightarrow>
     prefix ''f'' key_lower \<and> isdigit (drop 1 key_lower) \<and>
     1 \<le> int_of_digits (drop 1 key_lower) \<and> int_of_digits (drop 1 key_lower) \<le> 12"

text \<open>The modifier loop of \<^verbatim>\<open>_parse_hotkey\<close>: unknown modifiers are dropped.\<close>

fun modifier_parts :: "string list \<Rightarrow> string list" where
  "modifier_parts [] = []"
| "modifier_parts (m # ms) =
     (case map_of modifier_map m of
        Some pynput_mod \<Rightarrow>
          (if pynput_mod \<noteq> [] then (''<'' @ pynput_mod @ ''>'') # modifier_parts ms
           else modifier_parts ms)
      | None \<Rightarrow> modifier_parts ms)"

definition key_part :: "string \<Rightarrow> string" where
  "key_part key_lower =
     (if is_f_key key_lower then ''<'' @ key_lower @ ''>''
      else if length key_lower > 1 then ''<'' @ key_lower @ ''>''
      else key_lower)"

definition parse_hotkey :: "HotkeyConfig option \<Rightarrow> string option" where
  "parse_hotkey hotkey_config =
     (case hotkey_config of
        None \<Rightarrow> None
      | Some hc \<Rightarrow> Some (join ''+'' (modifier_parts (Modifiers hc) @ [key_part (lower (Key hc))])))"

datatype log_entry = LogInfo string | LogError string

text \<open>
  The manager's fields. The listener is the running \<^verbatim>\<open>GlobalHotKeys\<close> object, kept
  as the hotkey string it was built for; callbacks are told apart by a number.
\<close>

record HotkeyManager =
  on_hotkey_pressed_callback :: "nat option"
  listener :: "string option"
  current_hotkey_config :: "HotkeyConfig option"
  hotkey_active :: bool
  hotkey_log :: "log_entry list"

text \<open>
  What the platform does with one registration attempt: \<^verbatim>\<open>GlobalHotKeys(...)\<close>
  may raise, \<^verbatim>\<open>listener.start()\<close> may raise, and \<^verbatim>\<open>listener.stop()\<close> or
  \<^verbatim>\<open>join\<close> of the old listener may raise.
\<close>

datatype start_outcome = Started | ConstructorFails | StartFails

record platform =
  start_outcome :: start_outcome
  stop_raises :: bool

definition hk_log :: "log_entry \<Rightarrow> HotkeyManager \<Rightarrow> HotkeyManager" where
  "hk_log entry hm = hm\<lparr>hotkey_log := hotkey_log hm @ [entry]\<rparr>"

definition stop_listener_internal :: "platform \<Rightarrow> HotkeyManager \<Rightarrow> HotkeyManager" where
  "stop_listener_internal pf hm =
     (let hm1 =
        (case listener hm of
           None \<Rightarrow> hm
         | Some l \<Rightarrow>
             (if stop_raises pf then hk_log (LogError ''Error stopping listener'') hm else hm)
               \<lparr>listener := None\<rparr>)
      in hm1\<lparr>hotkey_active := False\<rparr>)"

text \<open>\<^verbatim>\<open>not hotkey_config or not hotkey_config.Key\<close>\<close>

definition invalid_config :: "HotkeyConfig option \<Rightarrow> bool" where
  "invalid_config hotkey_config = (case hotkey_config of None \<Rightarrow> True | Some hc \<Rightarrow> Key hc = [])"

definition register_global_hotkey ::
  "platform \<Rightarrow> HotkeyConfig option \<Rightarrow> nat option \<Rightarrow> HotkeyManager \<Rightarrow> bool \<times> HotkeyManager" where
  "register_global_hotkey pf hotkey_config callback hm =
     (let hm1 = (case callback of
                   Some cb \<Rightarrow> hm\<lparr>on_hotkey_pressed_callback := Some cb\<rparr>
                 | None \<Rightarrow> hm)
      in
      if invalid_config hotkey_config then
        (False, hk_log (LogError ''Cannot register hotkey: Invalid HotkeyConfig provided.'') hm1)
      else
        (let hm2 = hm1\<lparr>current_hotkey_config := hotkey_config\<rparr> in
         case parse_hotkey hotkey_config of
           None \<Rightarrow> (False, hk_log (LogError ''Failed to parse hotkey configuration.'') hm2)
         | Some parsed_hotkey_str \<Rightarrow>
             if parsed_hotkey_str = [] then
               (False, hk_log (LogError ''Failed to parse hotkey configuration.'') hm2)
             else
               (let hm3 =
                  (if listener hm2 \<noteq> None
                   then stop_listener_internal pf
                          (hk_log (LogInfo ''Stopping existing listener before registering new hotkey.'') hm2)
                   else hm2)
                in
                case start_outcome pf of
                  Started \<Rightarrow>
                    (True,
                     hk_log (LogInfo ''Global hotkey registered successfully.'')
                       (hm3\<lparr>listener := Some parsed_hotkey_str, hotkey_active := True\<rparr>))
                | ConstructorFails \<Rightarrow>
                    (let hm4 = (hk_log (LogError ''Failed to register global hotkey'') hm3)
                                 \<lparr>current_hotkey_config := None\<rparr>
                     in (False, if listener hm4 \<noteq> None then stop_listener_internal pf hm4 else hm4))
                | StartFails \<Rightarrow>
                    (let hm4 = (hk_log (LogError ''Failed to register global hotkey'')
                                  (hm3\<lparr>listener := Some parsed_hotkey_str\<rparr>))
                                 \<lparr>current_hotkey_config := None\<rparr>
                     in (False, if listener hm4 \<noteq> None then stop_listener_internal pf hm4 else hm4)))))"

definition unregister_global_hotkey :: "platform \<Rightarrow> HotkeyManager \<Rightarrow> HotkeyManager" where
  "unregister_global_hotkey pf hm =
     hk_log (LogInfo ''Global hotkey unregistered.'') (stop_listener_internal pf hm)"

definition reregister_hotkeys ::
  "platform \<Rightarrow> HotkeyConfig \<Rightarrow> nat option \<Rightarrow> HotkeyManager \<Rightarrow> bool \<times> HotkeyManager" where
  "reregister_hotkeys pf hotkey_config callback hm =
     register_global_hotkey pf (Some hotkey_config) callback (unregister_global_hotkey pf hm)"

text \<open>The state of a fresh manager, as \<^verbatim>\<open>__init__\<close> leaves it.\<close>

definition init_HotkeyManager :: "nat option \<Rightarrow> HotkeyManager" where
  "init_HotkeyManager callback =
     \<lparr>on_hotkey_pressed_callback = callback, listener = None,
      current_hotkey_config = None, hotkey_active = False, hotkey_log = []\<rparr>"


text \<open>No listener, no active hotkey.\<close>

definition hotkey_inv :: "HotkeyManager \<Rightarrow> bool" where
  "hotkey_inv hm \<longleftrightarrow> (listener hm = None \<longrightarrow> \<not> hotkey_active hm)"

section \<open>Search prompt (ui/search\_prompt\_dialog.py)\<close>

datatype DialogCode = ACCEPTED | REJECTED | OPEN_LAST

text \<open>
  \<^verbatim>\<open>DialogCode(result_code_int)\<close> with \<^verbatim>\<open>Accepted = 1\<close>,
  \<^verbatim>\<open>Rejected = 0\<close> and the custom code 2; an unknown code raises
  \<^verbatim>\<open>ValueError\<close>, which \<^verbatim>\<open>exec_dialog\<close> turns into \<^verbatim>\<open>REJECTED\<close>.
\<close>

definition dialog_code_of_int :: "int \<Rightarrow> DialogCode" where
  "dialog_code_of_int n =
     (if n = 1 then ACCEPTED else if n = 0 then REJECTED else if n = 2 then OPEN_LAST
      else REJECTED)"

definition is_space :: "char \<Rightarrow> bool" where
  "is_space c \<longleftrightarrow> py_ord c \<in> {9, 10, 11, 12, 13, 28, 29, 30, 31, 32, 133, 160}"

text \<open>\<^verbatim>\<open>s.strip()\<close>\<close>

definition strip :: "string \<Rightarrow> string" where
  "strip t = rev (dropWhile is_space (rev (dropWhile is_space t)))"

text \<open>
  One run of the modal dialog, as the user ends it: the code \<^verbatim>\<open>self.exec()\<close>
  returns and the text of the input line at that moment.
\<close>

record dialog_run =
  exec_result :: int
  input_text :: string

definition exec_dialog :: "string option \<Rightarrow> dialog_run \<Rightarrow> DialogCode \<times> string option" where
  "exec_dialog last_search_term run =
     (let final_result_code = dialog_code_of_int (exec_result run) in
      (final_result_code,
       if final_result_code = ACCEPTED then Some (strip (input_text run))
       else if final_result_code = OPEN_LAST then last_search_term
       else Some []))"

section \<open>The popup window (ui/webview\_popup.py)\<close>

record QRect =
  rect_x :: int
  rect_y :: int
  rect_width :: int
  rect_height :: int

text \<open>
  A popup object: the URL it was built for, the configuration it was built with, its
  current geometry, whether it is on screen (\<^verbatim>\<open>isVisible()\<close>), and whether its
  \<^verbatim>\<open>popup_closing\<close> signal is connected to \<^verbatim>\<open>AppLogic._handle_popup_closing\<close>.
\<close>

record WebViewPopup =
  initial_url :: string
  popup_config :: PopupConfig
  geometry :: QRect
  visible :: bool
  closing_connected :: bool

text \<open>
  \<^verbatim>\<open>setGeometry(Left, Top, Width, Height)\<close> followed by
  \<^verbatim>\<open>setMinimumSize(300, 200)\<close>.
\<close>

definition initial_geometry :: "PopupConfig \<Rightarrow> QRect" where
  "initial_geometry cfg =
     \<lparr>rect_x = \<lfloor>Left cfg\<rfloor>, rect_y = \<lfloor>Top cfg\<rfloor>,
      rect_width = max 300 \<lfloor>Width cfg\<rfloor>, rect_height = max 200 \<lfloor>Height cfg\<rfloor>\<rparr>"

section \<open>The orchestrator (app\_logic.py)\<close>

text \<open>What a run of the handler does to the outside, in the order it does it.\<close>

datatype event =
    Notify string string
  | ShowCursor
  | DialogShown "string option" string
  | PopupClosing nat QRect
  | PopupConstructed nat
  | PopupShown nat
  | PopupActivated nat
  | SettingsSaved AppSettings

text \<open>
  The fields of \<^verbatim>\<open>AppLogic\<close> the handler reads or writes, the popup objects made
  so far (\<^verbatim>\<open>current_popup\<close> refers to one by its position), the files behind
  \<^verbatim>\<open>config_manager\<close>, and the events so far.
\<close>

record AppLogic =
  settings :: "AppSettings option"
  game_configs :: "catalog option"
  current_popup :: "nat option"
  last_search_url_str :: "string option"
  tray_icon :: bool
  popups :: "WebViewPopup list"
  disk :: fs
  events :: "event list"

text \<open>
  What the outside contributes to one run of the handler: the title of the active
  window, the run of the search dialog if one is shown, and whether building or
  showing the popup raises.
\<close>

datatype popup_outcome = PopupOk | ConstructorRaises | ShowRaises

record env =
  active_window_title :: string
  dialog :: dialog_run
  popup_outcome :: popup_outcome

definition emit :: "event \<Rightarrow> AppLogic \<Rightarrow> AppLogic" where
  "emit ev s = s\<lparr>events := events s @ [ev]\<rparr>"

text \<open>\<^verbatim>\<open>if self.tray_manager.icon: self.tray_manager.icon.notify(message, title)\<close>\<close>

definition notify :: "string \<Rightarrow> string \<Rightarrow> AppLogic \<Rightarrow> AppLogic" where
  "notify message title s = (if tray_icon s then emit (Notify message title) s else s)"

definition set_popup :: "nat \<Rightarrow> (WebViewPopup \<Rightarrow> WebViewPopup) \<Rightarrow> AppLogic \<Rightarrow> AppLogic" where
  "set_popup p f s = s\<lparr>popups := (popups s)[p := f (popups s ! p)]\<rparr>"

text \<open>\<^verbatim>\<open>self.current_popup and self.current_popup.isVisible()\<close>\<close>

definition visible_current_popup :: "AppLogic \<Rightarrow> nat option" where
  "visible_current_popup s =
     (case current_popup s of
        None \<Rightarrow> None
      | Some p \<Rightarrow> if p < length (popups s) \<and> visible (popups s ! p) then Some p else None)"

text \<open>
  \<^verbatim>\<open>_handle_popup_closing(geometry)\<close>: the geometry goes into the settings, the
  settings are saved, and the reference to the popup is dropped.
\<close>

definition handle_popup_closing :: "QRect \<Rightarrow> AppLogic \<Rightarrow> error + AppLogic" where
  "handle_popup_closing g s =
     (case settings s of
        None \<Rightarrow> Inr (s\<lparr>current_popup := None\<rparr>)
      | Some st \<Rightarrow>
          (let st' = st\<lparr>Popup := \<lparr>Width = of_int (rect_width g), Height = of_int (rect_height g),
                                  Left = of_int (rect_x g), Top = of_int (rect_y g)\<rparr>\<rparr>
           in case save_settings (disk s) st' of
                Inl e \<Rightarrow> Inl e
              | Inr d \<Rightarrow>
                  Inr ((emit (SettingsSaved st') (s\<lparr>settings := Some st', disk := d\<rparr>))
                         \<lparr>current_popup := None\<rparr>)))"

text \<open>
  \<^verbatim>\<open>WebViewPopup.closeEvent\<close> of popup \<open>p\<close>, run by \<^verbatim>\<open>close()\<close> or by the
  user closing the window: the signal is emitted with the current geometry, which
  calls the handler if it is connected; then the window leaves the screen.
\<close>

definition closeEvent :: "nat \<Rightarrow> AppLogic \<Rightarrow> error + AppLogic" where
  "closeEvent p s =
     (let g = geometry (popups s ! p);
          s1 = emit (PopupClosing p g) s
      in case (if closing_connected (popups s ! p) then handle_popup_closing g s1 else Inr s1) of
           Inl e \<Rightarrow> Inl e
         | Inr s2 \<Rightarrow> Inr (set_popup p (\<lambda>w. w\<lparr>visible := False\<rparr>) s2))"

text \<open>
  \<^verbatim>\<open>popup_closing.disconnect(self._handle_popup_closing)\<close>; the
  \<^verbatim>\<open>TypeError\<close> of a signal that is not connected is caught and ignored.
\<close>

definition disconnect_closing :: "nat \<Rightarrow> AppLogic \<Rightarrow> AppLogic" where
  "disconnect_closing p s = set_popup p (\<lambda>w. w\<lparr>closing_connected := False\<rparr>) s"

text \<open>The \<^verbatim>\<open>if self.current_popup:\<close> block before a new popup is made.\<close>

definition close_existing :: "AppLogic \<Rightarrow> error + AppLogic" where
  "close_existing s =
     (case current_popup s of
        None \<Rightarrow> Inr s
      | Some p \<Rightarrow>
          (case closeEvent p (disconnect_closing p s) of
             Inl e \<Rightarrow> Inl e
           | Inr s1 \<Rightarrow> Inr (s1\<lparr>current_popup := None\<rparr>)))"

text \<open>
  \<^verbatim>\<open>self.current_popup = WebViewPopup(...)\<close> and the \<^verbatim>\<open>connect\<close> after it.
\<close>

definition construct_popup :: "string \<Rightarrow> PopupConfig \<Rightarrow> AppLogic \<Rightarrow> AppLogic" where
  "construct_popup target_url_str popup_config_to_use s =
     emit (PopupConstructed (length (popups s)))
       (s\<lparr>popups := popups s @
             [\<lparr>initial_url = target_url_str, popup_config = popup_config_to_use,
               geometry = initial_geometry popup_config_to_use, visible = False,
               closing_connected = True\<rparr>],
          current_popup := Some (length (popups s))\<rparr>)"

text \<open>\<^verbatim>\<open>self.current_popup.show()\<close>\<close>

definition show_popup :: "AppLogic \<Rightarrow> AppLogic" where
  "show_popup s =
     (case current_popup s of
        None \<Rightarrow> s
      | Some p \<Rightarrow> emit (PopupShown p) (set_popup p (\<lambda>w. w\<lparr>visible := True\<rparr>) s))"

definition notify_popup_error :: "AppLogic \<Rightarrow> AppLogic" where
  "notify_popup_error s = notify ''Error opening wiki'' ''GameWikiOverlay Error'' s"

text \<open>The \<^verbatim>\<open>try\<close> block that makes and shows the popup, with its handler.\<close>

definition create_and_show :: "env \<Rightarrow> string \<Rightarrow> PopupConfig \<Rightarrow> AppLogic \<Rightarrow> AppLogic" where
  "create_and_show e target_url_str popup_config_to_use s =
     (case popup_outcome e of
        ConstructorRaises \<Rightarrow> notify_popup_error s
      | ShowRaises \<Rightarrow> notify_popup_error (construct_popup target_url_str popup_config_to_use s)
      | PopupOk \<Rightarrow>
          emit ShowCursor (show_popup (construct_popup target_url_str popup_config_to_use s)))"

text \<open>
  The \<^verbatim>\<open>if target_url_str:\<close> block. \<^verbatim>\<open>self.settings.Popup\<close> raises when the
  settings were never loaded.
\<close>

definition open_popup :: "env \<Rightarrow> string \<Rightarrow> AppLogic \<Rightarrow> error + AppLogic" where
  "open_popup e target_url_str s =
     (if target_url_str = [] then Inr s
      else
        (case close_existing s of
           Inl err \<Rightarrow> Inl err
         | Inr s1 \<Rightarrow>
             (case settings s1 of
                None \<Rightarrow> Inl AttributeError
              | Some st \<Rightarrow> Inr (create_and_show e target_url_str (Popup st) s1))))"

text \<open>
  The \<^verbatim>\<open>last_search_term\<close> argument of the dialog:
  \<^verbatim>\<open>self.last_search_url_str if BaseUrl not in (self.last_search_url_str or "") else ""\<close>.
\<close>

definition last_search_term_arg :: "GameConfig \<Rightarrow> string option \<Rightarrow> string option" where
  "last_search_term_arg matched_game_cfg last_url =
     (if \<not> str_in (BaseUrl matched_game_cfg) (case last_url of None \<Rightarrow> [] | Some u \<Rightarrow> u)
      then last_url else Some [])"

definition truthy :: "string option \<Rightarrow> bool" where
  "truthy t = (case t of None \<Rightarrow> False | Some u \<Rightarrow> u \<noteq> [])"

definition set_last :: "string \<Rightarrow> AppLogic \<Rightarrow> AppLogic" where
  "set_last target_url_str s = s\<lparr>last_search_url_str := Some target_url_str\<rparr>"

text \<open>
  The part of the handler that settles \<^verbatim>\<open>target_url_str\<close>: \<open>Inl\<close> is the
  \<^verbatim>\<open>return\<close> of a rejected dialog, \<open>Inr\<close> carries the target on.
\<close>

definition resolve_target ::
  "env \<Rightarrow> string \<Rightarrow> GameConfig \<Rightarrow> AppLogic \<Rightarrow> AppLogic + (string \<times> AppLogic)" where
  "resolve_target e matched_game_name matched_game_cfg s =
     (if \<not> NeedsSearch matched_game_cfg then
        (let t = build_url matched_game_cfg None in Inr (t, set_last t s))
      else
        (let prefill = last_search_term_arg matched_game_cfg (last_search_url_str s);
             s1 = emit (DialogShown prefill (''Search '' @ matched_game_name @ '' Wiki...'')) s;
             (result_code, search_term) = exec_dialog prefill (dialog e)
         in case result_code of
              ACCEPTED \<Rightarrow>
                (if truthy search_term then
                   (let t = build_url matched_game_cfg search_term in Inr (t, set_last t s1))
                 else
                   (let t = build_url matched_game_cfg None in Inr (t, set_last t s1)))
            | OPEN_LAST \<Rightarrow>
                (case last_search_url_str s1 of
                   Some u \<Rightarrow>
                     if u \<noteq> [] then Inr (u, s1)
                     else (let t = build_url matched_game_cfg None in Inr (t, set_last t s1))
                 | None \<Rightarrow>
                     (let t = build_url matched_game_cfg None in Inr (t, set_last t s1)))
            | REJECTED \<Rightarrow> Inl s1))"

definition special_names :: "string list" where
  "special_names = [''counter-strike 2'', ''valorant'']"

text \<open>
  The test \<^verbatim>\<open>matched_game_name and matched_game_name.lower() in [...]\<close> for the
  two games that hide the cursor.
\<close>

definition is_special :: "string \<Rightarrow> bool" where
  "is_special matched_game_name \<longleftrightarrow>
     matched_game_name \<noteq> [] \<and> lower matched_game_name \<in> set special_names"

definition show_cursor_if_special :: "string \<Rightarrow> AppLogic \<Rightarrow> AppLogic" where
  "show_cursor_if_special matched_game_name s =
     (if is_special matched_game_name then emit ShowCursor s else s)"

text \<open>
  \<^verbatim>\<open>_handle_hotkey_press_thread_safe\<close>. With no catalog the handler calls
  \<^verbatim>\<open>showMessage\<close> on the tray icon, which the icon object does not have.
\<close>

definition handle_hotkey_press :: "env \<Rightarrow> AppLogic \<Rightarrow> error + AppLogic" where
  "handle_hotkey_press e s =
     (case game_configs s of
        None \<Rightarrow> Inl AttributeError
      | Some cat \<Rightarrow>
          if cat = [] then Inl AttributeError
          else
            (case match_game (active_window_title e) cat of
               None \<Rightarrow>
                 Inr (notify (''No configuration for: '' @ active_window_title e)
                        ''GameWikiOverlay'' s)
             | Some (matched_game_name, matched_game_cfg) \<Rightarrow>
                 (let s1 = show_cursor_if_special matched_game_name s
                  in case (if is_special matched_game_name then visible_current_popup s1
                           else None) of
                       Some p \<Rightarrow> Inr (emit (PopupActivated p) s1)
                     | None \<Rightarrow>
                         (case resolve_target e matched_game_name matched_game_cfg s1 of
                            Inl s2 \<Rightarrow> Inr s2
                          | Inr (target_url_str, s2) \<Rightarrow> open_popup e target_url_str s2))))"

text \<open>The user closes the window of popup \<open>p\<close>, or moves and resizes it.\<close>

definition user_closes :: "nat \<Rightarrow> AppLogic \<Rightarrow> error + AppLogic" where
  "user_closes p s = closeEvent p s"

definition user_moves :: "nat \<Rightarrow> QRect \<Rightarrow> AppLogic \<Rightarrow> AppLogic" where
  "user_moves p g s = set_popup p (\<lambda>w. w\<lparr>geometry := g\<rparr>) s"

text \<open>
  The popups on screen, by position, and the invariant that only the current popup
  can be one.
\<close>

definition live_popups :: "AppLogic \<Rightarrow> nat list" where
  "live_popups s = filter (\<lambda>i. visible (popups s ! i)) [0 ..< length (popups s)]"

definition popup_inv :: "AppLogic \<Rightarrow> bool" where
  "popup_inv s \<longleftrightarrow>
     (\<forall>i < length (popups s). visible (popups s ! i) \<longrightarrow> current_popup s = Some i) \<and>
     (\<forall>p. current_popup s = Some p \<longrightarrow> p < length (popups s))"

section \<open>Example data\<close>

definition valorant_cfg :: GameConfig where
  "valorant_cfg = \<lparr>BaseUrl = ''https://wiki.example/valorant'', NeedsSearch = False,
     SearchTemplate = None, KeywordMap = None\<rparr>"

definition elden_cfg :: GameConfig where
  "elden_cfg = \<lparr>BaseUrl = ''https://wiki.example/elden/'', NeedsSearch = True,
     SearchTemplate = Some ''https://wiki.example/search?q={query}'',
     KeywordMap = Some [(''boss'', ''Bosses'')]\<rparr>"

definition example_catalog :: catalog where
  "example_catalog =
     [(''Elden Ring'', elden_cfg), (''Valorant'', valorant_cfg), (''VALORANT'', elden_cfg)]"


definition example_fs :: fs where
  "example_fs =
     \<lparr>user_config_dir_exists = True, makedirs_ok = True,
      user_settings_file = Document (model_dump_json default_settings),
      user_settings_writable = True, default_settings_file = Missing,
      default_games_file = Missing\<rparr>"

definition example_popup :: WebViewPopup where
  "example_popup =
     \<lparr>initial_url = ''https://wiki.example/valorant'',
      popup_config = get_default_popup_config,
      geometry = \<lparr>rect_x = 5, rect_y = 6, rect_width = 700, rect_height = 500\<rparr>,
      visible = True, closing_connected = True\<rparr>"

text \<open>An application with one popup on screen, moved and resized by the user.\<close>

definition example_app :: AppLogic where
  "example_app =
     \<lparr>settings = Some default_settings, game_configs = Some example_catalog,
      current_popup = Some 0,
      last_search_url_str = Some ''https://wiki.example/valorant'',
      tray_icon = True, popups = [example_popup], disk = example_fs, events = []\<rparr>"

text \<open>An application right after start: no popup yet, no last URL.\<close>

definition idle_app :: AppLogic where
  "idle_app =
     \<lparr>settings = Some default_settings, game_configs = Some example_catalog,
      current_popup = None, last_search_url_str = None,
      tray_icon = True, popups = [], disk = example_fs, events = []\<rparr>"

definition example_env :: "string \<Rightarrow> int \<Rightarrow> string \<Rightarrow> popup_outcome \<Rightarrow> env" where
  "example_env title code typed outcome =
     \<lparr>active_window_title = title,
      dialog = \<lparr>exec_result = code, input_text = typed\<rparr>,
      popup_outcome = outcome\<rparr>"


section \<open>Properties of URL building\<close>

lemma build_url_no_term: "build_url game_cfg None = BaseUrl game_cfg"
  by (simp add: build_url_def)

lemma build_url_empty_term: "build_url game_cfg (Some []) = BaseUrl game_cfg"
  by (simp add: build_url_def)

lemma build_url_NeedsSearch_update:
  "build_url (game_cfg\<lparr>NeedsSearch := b\<rparr>) search_term = build_url game_cfg search_term"
  by (cases search_term)
     (simp_all add: build_url_def apply_keyword_map_def Let_def split: option.splits)

lemma resolve_target_no_search:
  "\<not> NeedsSearch game_cfg \<Longrightarrow>
   resolve_target e game_name game_cfg s = Inr (BaseUrl game_cfg, set_last (BaseUrl game_cfg) s)"
  by (simp add: resolve_target_def build_url_def Let_def)

text \<open>
  C1, as stated, fails: \<^verbatim>\<open>_build_url\<close> never reads \<^verbatim>\<open>NeedsSearch\<close>. For a
  profile with \<^verbatim>\<open>NeedsSearch = False\<close>, a search template and the term
  \<^verbatim>\<open>"x"\<close>, it returns the filled template, not the base URL.
\<close>

theorem build_url_ignores_NeedsSearch_counterexample:
  "build_url \<lparr>BaseUrl = ''https://wiki.example/valorant'', NeedsSearch = False,
              SearchTemplate = Some ''https://wiki.example/search?q={query}'',
              KeywordMap = None\<rparr> (Some ''x'')
   \<noteq> BaseUrl \<lparr>BaseUrl = ''https://wiki.example/valorant'', NeedsSearch = False,
              SearchTemplate = Some ''https://wiki.example/search?q={query}'',
              KeywordMap = None\<rparr>"
  by code_simp

text \<open>
  C1, amended: \<^verbatim>\<open>_build_url\<close> returns \<^verbatim>\<open>BaseUrl\<close> unchanged, whatever the
  template and the keyword map, when the search term is absent or empty; and for a
  profile with \<^verbatim>\<open>NeedsSearch = False\<close> the handler calls it without a search term,
  so the target it resolves (and records as the last URL) is \<^verbatim>\<open>BaseUrl\<close>.
  \<^verbatim>\<open>_build_url\<close> itself never reads \<^verbatim>\<open>NeedsSearch\<close>: for every search term,
  absent, empty or not, the URL it builds is the same whatever the flag says.
\<close>

theorem build_url_base_url_unchanged:
  "build_url game_cfg None = BaseUrl game_cfg \<and>
   build_url game_cfg (Some []) = BaseUrl game_cfg \<and>
   (\<not> NeedsSearch game_cfg \<longrightarrow>
      resolve_target e game_name game_cfg s =
        Inr (BaseUrl game_cfg, set_last (BaseUrl game_cfg) s)) \<and>
   (\<forall>b search_term.
      build_url (game_cfg\<lparr>NeedsSearch := b\<rparr>) search_term = build_url game_cfg search_term)"
  by (simp add: build_url_no_term build_url_empty_term resolve_target_no_search
        build_url_NeedsSearch_update)

theorem build_url_base_url_unchanged_witness:
  "\<not> NeedsSearch \<lparr>BaseUrl = ''https://wiki.example/valorant'', NeedsSearch = False,
                    SearchTemplate = Some ''https://wiki.example/search?q={query}'',
                    KeywordMap = Some [(''boss'', ''Bosses'')]\<rparr> \<and>
   resolve_target (example_env ''VALORANT'' 0 [] PopupOk) ''Valorant''
       \<lparr>BaseUrl = ''https://wiki.example/valorant'', NeedsSearch = False,
        SearchTemplate = Some ''https://wiki.example/search?q={query}'',
        KeywordMap = Some [(''boss'', ''Bosses'')]\<rparr> idle_app
     = Inr (''https://wiki.example/valorant'',
            set_last ''https://wiki.example/valorant'' idle_app)"
  using build_url_base_url_unchanged
    [of "\<lparr>BaseUrl = ''https://wiki.example/valorant'', NeedsSearch = False,
          SearchTemplate = Some ''https://wiki.example/search?q={query}'',
          KeywordMap = Some [(''boss'', ''Bosses'')]\<rparr>"
        "example_env ''VALORANT'' 0 [] PopupOk" "''Valorant''" idle_app]
  by simp

text \<open>
  C10, as stated, fails at the empty search term: with the key \<^verbatim>\<open>""\<close> in the map,
  the lower-cased empty term is a key, yet \<^verbatim>\<open>if search_term:\<close> sends it to the
  plain \<^verbatim>\<open>BaseUrl\<close>.
\<close>

theorem build_url_empty_term_counterexample:
  "map_of [('''', ''Bosses'')] (lower '''') = Some ''Bosses'' \<and>
   build_url \<lparr>BaseUrl = ''https://wiki.example/'', NeedsSearch = True,
              SearchTemplate = None, KeywordMap = Some [('''', ''Bosses'')]\<rparr> (Some '''')
   \<noteq> ''https://wiki.example/'' @ quote_plus ''Bosses''"
  by code_simp

text \<open>
  C10, amended: for a profile with a keyword map and no search template, and every
  non-empty search term whose lower-cased form is a key of the map,
  \<^verbatim>\<open>_build_url\<close> returns \<^verbatim>\<open>BaseUrl\<close> followed by the percent-encoding of the
  mapped term.
\<close>

theorem build_url_keyword_map_without_template:
  assumes "KeywordMap game_cfg = Some kvs"
    and "SearchTemplate game_cfg = None \<or> SearchTemplate game_cfg = Some []"
    and "t \<noteq> []"
    and "map_of kvs (lower t) = Some canonical"
  shows "build_url game_cfg (Some t) = BaseUrl game_cfg @ quote_plus canonical"
  using assms by (auto simp: build_url_def apply_keyword_map_def dict_get_def)

theorem build_url_keyword_map_without_template_witness:
  "build_url \<lparr>BaseUrl = ''https://wiki.example/'', NeedsSearch = True,
              SearchTemplate = None, KeywordMap = Some [(''boss'', ''Big Bosses'')]\<rparr>
     (Some ''Boss'') = ''https://wiki.example/Big+Bosses''"
proof -
  have k: "map_of [(''boss'', ''Big Bosses'')] (lower ''Boss'') = Some ''Big Bosses''"
    by code_simp
  have q: "quote_plus ''Big Bosses'' = ''Big+Bosses''"
    by code_simp
  have "build_url \<lparr>BaseUrl = ''https://wiki.example/'', NeedsSearch = True,
              SearchTemplate = None, KeywordMap = Some [(''boss'', ''Big Bosses'')]\<rparr>
     (Some ''Boss'') =
     BaseUrl \<lparr>BaseUrl = ''https://wiki.example/'', NeedsSearch = True,
              SearchTemplate = None, KeywordMap = Some [(''boss'', ''Big Bosses'')]\<rparr>
       @ quote_plus ''Big Bosses''"
    by (rule build_url_keyword_map_without_template [OF _ _ _ k]) simp_all
  then show ?thesis by (simp add: q)
qed


section \<open>Properties of title matching\<close>

lemma match_game_None_iff:
  "match_game title cat = None \<longleftrightarrow> (\<forall>p \<in> set cat. \<not> name_in_title (fst p) title)"
proof (induction cat)
  case Nil
  show ?case by simp
next
  case (Cons a cat)
  obtain n c where a: "a = (n, c)" by (cases a)
  show ?case unfolding a using Cons.IH by simp
qed

lemma match_game_SomeI:
  "(\<forall>p \<in> set pre. \<not> name_in_title (fst p) title) \<Longrightarrow> name_in_title k title \<Longrightarrow>
   match_game title (pre @ (k, cfg) # post) = Some (k, cfg)"
proof (induction pre)
  case Nil
  then show ?case by simp
next
  case (Cons a pre)
  obtain n c where a: "a = (n, c)" by (cases a)
  from Cons.prems(1) a have n: "\<not> name_in_title n title" by simp
  from Cons.prems(1) have r: "\<forall>p \<in> set pre. \<not> name_in_title (fst p) title" by simp
  from Cons.IH [OF r Cons.prems(2)] n a show ?case by simp
qed

lemma match_game_SomeD:
  "match_game title cat = Some (k, cfg) \<Longrightarrow>
   \<exists>pre post. cat = pre @ (k, cfg) # post \<and> name_in_title k title \<and>
     (\<forall>p \<in> set pre. \<not> name_in_title (fst p) title)"
proof (induction cat)
  case Nil
  then show ?case by simp
next
  case (Cons a cat)
  obtain n c where a: "a = (n, c)" by (cases a)
  show ?case
  proof (cases "name_in_title n title")
    case True
    with Cons.prems a have e: "n = k" "c = cfg" by simp_all
    have "a # cat = [] @ (k, cfg) # cat \<and> name_in_title k title \<and>
        (\<forall>p \<in> set []. \<not> name_in_title (fst p) title)"
      using True a e by simp
    then show ?thesis by (intro exI)
  next
    case False
    with Cons.prems a have "match_game title cat = Some (k, cfg)" by simp
    from Cons.IH [OF this] obtain pre post where
      p: "cat = pre @ (k, cfg) # post" "name_in_title k title"
         "\<forall>p \<in> set pre. \<not> name_in_title (fst p) title" by (elim exE conjE)
    have "a # cat = (a # pre) @ (k, cfg) # post \<and> name_in_title k title \<and>
        (\<forall>p \<in> set (a # pre). \<not> name_in_title (fst p) title)"
      using p False a by simp
    then show ?thesis by (intro exI)
  qed
qed

lemma name_in_empty_title: "name_in_title k [] \<longleftrightarrow> k = []"
  by (simp add: name_in_title_def str_in_def lower_def)

text \<open>
  C4, as stated, fails in its last part: a catalog may hold the empty string as a
  key, the empty string occurs in every title, and so the empty title matches it.
\<close>

theorem match_game_empty_title_counterexample:
  "match_game '''' [('''', \<lparr>BaseUrl = ''https://wiki.example/'', NeedsSearch = True,
      SearchTemplate = None, KeywordMap = None\<rparr>)] \<noteq> None"
  by (simp add: name_in_title_def str_in_def lower_def)

text \<open>
  C4, amended: matching returns no entry exactly when no key occurs
  case-insensitively in the title; it returns an entry exactly when that entry's key
  so occurs and no entry before it in the catalog has such a key; and an empty title
  produces no match when no key of the catalog is the empty string.
\<close>

theorem match_game_first_match:
  "(match_game title cat = None \<longleftrightarrow> (\<forall>p \<in> set cat. \<not> name_in_title (fst p) title)) \<and>
   (match_game title cat = Some (k, cfg) \<longleftrightarrow>
      (\<exists>pre post. cat = pre @ (k, cfg) # post \<and> name_in_title k title \<and>
         (\<forall>p \<in> set pre. \<not> name_in_title (fst p) title))) \<and>
   ((\<forall>p \<in> set cat. fst p \<noteq> []) \<longrightarrow> match_game [] cat = None)"
proof (intro conjI)
  show "match_game title cat = None \<longleftrightarrow> (\<forall>p \<in> set cat. \<not> name_in_title (fst p) title)"
    by (rule match_game_None_iff)
  show "match_game title cat = Some (k, cfg) \<longleftrightarrow>
      (\<exists>pre post. cat = pre @ (k, cfg) # post \<and> name_in_title k title \<and>
         (\<forall>p \<in> set pre. \<not> name_in_title (fst p) title))"
  proof
    assume "match_game title cat = Some (k, cfg)"
    then show "\<exists>pre post. cat = pre @ (k, cfg) # post \<and> name_in_title k title \<and>
         (\<forall>p \<in> set pre. \<not> name_in_title (fst p) title)"
      by (rule match_game_SomeD)
  next
    assume "\<exists>pre post. cat = pre @ (k, cfg) # post \<and> name_in_title k title \<and>
         (\<forall>p \<in> set pre. \<not> name_in_title (fst p) title)"
    then obtain pre post where "cat = pre @ (k, cfg) # post" "name_in_title k title"
        "\<forall>p \<in> set pre. \<not> name_in_title (fst p) title"
      by (elim exE conjE)
    then show "match_game title cat = Some (k, cfg)"
      by (simp only: match_game_SomeI)
  qed
  show "(\<forall>p \<in> set cat. fst p \<noteq> []) \<longrightarrow> match_game [] cat = None"
  proof
    assume "\<forall>p \<in> set cat. fst p \<noteq> []"
    then have "\<forall>p \<in> set cat. \<not> name_in_title (fst p) []"
      by (simp add: name_in_empty_title)
    then show "match_game [] cat = None"
      by (simp only: match_game_None_iff)
  qed
qed

theorem match_game_first_match_witness:
  "match_game ''VALORANT - Main Menu'' example_catalog = Some (''Valorant'', valorant_cfg) \<and>
   match_game [] example_catalog = None"
proof -
  have a: "example_catalog =
      [(''Elden Ring'', elden_cfg)] @ (''Valorant'', valorant_cfg) # [(''VALORANT'', elden_cfg)]"
    by (simp add: example_catalog_def)
  have b: "name_in_title ''Valorant'' ''VALORANT - Main Menu''"
    by code_simp
  have c0: "\<not> name_in_title ''Elden Ring'' ''VALORANT - Main Menu''"
    by code_simp
  have c: "\<forall>p \<in> set [(''Elden Ring'', elden_cfg)]. \<not> name_in_title (fst p) ''VALORANT - Main Menu''"
    using c0 by simp
  from a b c have "example_catalog =
      [(''Elden Ring'', elden_cfg)] @ (''Valorant'', valorant_cfg) # [(''VALORANT'', elden_cfg)] \<and>
      name_in_title ''Valorant'' ''VALORANT - Main Menu'' \<and>
      (\<forall>p \<in> set [(''Elden Ring'', elden_cfg)]. \<not> name_in_title (fst p) ''VALORANT - Main Menu'')"
    by (intro conjI)
  then have ex: "\<exists>pre post.
      example_catalog = pre @ (''Valorant'', valorant_cfg) # post \<and>
      name_in_title ''Valorant'' ''VALORANT - Main Menu'' \<and>
      (\<forall>p \<in> set pre. \<not> name_in_title (fst p) ''VALORANT - Main Menu'')"
    by (intro exI)
  have n: "\<forall>p \<in> set example_catalog. fst p \<noteq> []"
    by (simp add: example_catalog_def)
  have 1: "match_game ''VALORANT - Main Menu'' example_catalog = Some (''Valorant'', valorant_cfg)"
    using conjunct1 [OF conjunct2 [OF match_game_first_match
      [of "''VALORANT - Main Menu''" example_catalog "''Valorant''" valorant_cfg]]] ex
    by (rule iffD2)
  have 2: "match_game [] example_catalog = None"
    using conjunct2 [OF conjunct2 [OF match_game_first_match
      [of "[]" example_catalog "''Valorant''" valorant_cfg]]] n
    by (rule mp)
  from 1 2 show ?thesis by (intro conjI)
qed

section \<open>The pre-filled term of the search prompt\<close>

text \<open>
  C7, as stated, fails: the source tests \<^verbatim>\<open>BaseUrl not in last\<close>, a substring
  test, not a prefix test. Here the last URL does not start with the profile's
  \<^verbatim>\<open>BaseUrl\<close> but contains it, and the prompt is given the empty string.
\<close>

theorem last_search_term_arg_counterexample:
  "\<not> prefix (BaseUrl \<lparr>BaseUrl = ''wiki.example/elden'', NeedsSearch = True,
                       SearchTemplate = None, KeywordMap = None\<rparr>)
            ''https://wiki.example/elden/Boss'' \<and>
   last_search_term_arg \<lparr>BaseUrl = ''wiki.example/elden'', NeedsSearch = True,
                         SearchTemplate = None, KeywordMap = None\<rparr>
     (Some ''https://wiki.example/elden/Boss'') = Some ''''"
  by code_simp

text \<open>
  C7, amended: when a profile with \<^verbatim>\<open>NeedsSearch\<close> is matched, the search prompt
  is shown with the last resolved URL as its pre-filled term exactly when the
  profile's \<^verbatim>\<open>BaseUrl\<close> does not occur in that URL as a substring (an absent last
  URL counting as the empty string); otherwise the pre-fill is the empty string.
\<close>

theorem dialog_prefill:
  assumes "NeedsSearch cfg"
  shows "events (case resolve_target e name cfg s of Inl s' \<Rightarrow> s' | Inr (t, s') \<Rightarrow> s') =
         events s @
           [DialogShown
              (if str_in (BaseUrl cfg)
                    (case last_search_url_str s of None \<Rightarrow> [] | Some u \<Rightarrow> u)
               then Some [] else last_search_url_str s)
              (''Search '' @ name @ '' Wiki...'')]"
proof -
  obtain code t where x:
    "exec_dialog (last_search_term_arg cfg (last_search_url_str s)) (dialog e) = (code, t)"
    by (cases "exec_dialog (last_search_term_arg cfg (last_search_url_str s)) (dialog e)")
  show ?thesis
    using assms x
    by (cases code)
       (simp_all add: resolve_target_def Let_def emit_def set_last_def
          last_search_term_arg_def split: option.splits)
qed

theorem dialog_prefill_witness:
  "NeedsSearch elden_cfg \<and>
   events (case resolve_target (example_env ''Elden Ring'' 0 '''' PopupOk) ''Elden Ring''
                  elden_cfg example_app of
             Inl s' \<Rightarrow> s' | Inr (t, s') \<Rightarrow> s') =
     events example_app @
       [DialogShown (Some ''https://wiki.example/valorant'') ''Search Elden Ring Wiki...'']"
proof -
  have n: "NeedsSearch elden_cfg"
    by (simp add: elden_cfg_def)
  have l: "last_search_url_str example_app = Some ''https://wiki.example/valorant''"
    by (simp add: example_app_def)
  have i: "\<not> str_in (BaseUrl elden_cfg) ''https://wiki.example/valorant''"
    by code_simp
  show ?thesis
    using dialog_prefill [OF n, of "example_env ''Elden Ring'' 0 '''' PopupOk"
                            "''Elden Ring''" example_app] n l i
    by simp
qed

section \<open>Loading the settings\<close>

text \<open>
  C5: a user settings document that is valid JSON but not an object, here the
  empty array, fails schema validation with a \<^verbatim>\<open>TypeError\<close> raised by
  \<^verbatim>\<open>AppSettings(**data)\<close>. No handler of \<^verbatim>\<open>load_settings\<close> catches it: the
  error reaches the caller, no defaults are returned and the file is left as it was.
\<close>

theorem load_settings_non_object_document:
  "load_settings (example_fs\<lparr>user_settings_file := Document (JArr [])\<rparr>) = Inl TypeError"
  by (simp add: load_settings_def read_user_settings_def construct_def example_fs_def)

text \<open>
  The cases the handlers do cover: text that is not JSON, and an object that fails
  validation, give the hard-coded defaults, and the file is overwritten with them
  when it can be written.
\<close>

lemma load_settings_malformed:
  "user_settings_file d = Malformed \<Longrightarrow> user_config_dir_exists d \<Longrightarrow>
   user_settings_writable d \<Longrightarrow>
   load_settings d =
     Inr (default_settings, d\<lparr>user_settings_file := Document (model_dump_json default_settings)\<rparr>)"
  by (simp add: load_settings_def read_user_settings_def save_and_return_defaults_def
        save_settings_def ensure_config_dir_exists_def)

lemma load_settings_invalid_object:
  "user_settings_file d = Document (JObj kvs) \<Longrightarrow> validate_AppSettings kvs = None \<Longrightarrow>
   user_config_dir_exists d \<Longrightarrow> user_settings_writable d \<Longrightarrow>
   load_settings d =
     Inr (default_settings, d\<lparr>user_settings_file := Document (model_dump_json default_settings)\<rparr>)"
  by (simp add: load_settings_def read_user_settings_def save_and_return_defaults_def
        save_settings_def ensure_config_dir_exists_def construct_def)

lemma default_settings_values:
  "Key (Hotkey default_settings) = ''F1'' \<and> Modifiers (Hotkey default_settings) = [''Ctrl''] \<and>
   Width (Popup default_settings) = 800 \<and> Height (Popup default_settings) = 600 \<and>
   Left (Popup default_settings) = 100 \<and> Top (Popup default_settings) = 100"
  by (simp add: default_settings_def get_default_hotkey_config_def get_default_popup_config_def)

section \<open>Loading the game catalog\<close>

text \<open>
  C8: a catalog entry whose value is not an object, here the number 5, fails with a
  \<^verbatim>\<open>TypeError\<close> raised by \<^verbatim>\<open>GameConfig(**config_data)\<close>. The inner handler
  catches \<^verbatim>\<open>ValidationError\<close> only, so the error leaves the loop and the outer
  \<^verbatim>\<open>except Exception\<close> returns the empty dict: the valid entry before it is lost.
  The same valid entry alone, or beside an object that fails validation, is returned.
\<close>

theorem load_game_configs_non_object_entry:
  "load_game_configs
     (example_fs\<lparr>default_games_file :=
        Document (JObj [(''Good'', JObj [(''BaseUrl'', JStr ''https://a'')]),
                        (''Bad'', JInt 5)])\<rparr>) = [] \<and>
   load_game_configs
     (example_fs\<lparr>default_games_file :=
        Document (JObj [(''Good'', JObj [(''BaseUrl'', JStr ''https://a'')]),
                        (''Bad'', JObj [(''BaseUrl'', JInt 5)])])\<rparr>)
     = [(''Good'', \<lparr>BaseUrl = ''https://a'', NeedsSearch = True, SearchTemplate = None,
                    KeywordMap = None\<rparr>)]"
  by (simp add: load_game_configs_def construct_def validate_GameConfig_def field_def
        as_str_def as_bool_def with_default_def optional_def example_fs_def)

section \<open>Failing hotkey registrations\<close>

lemma join_snoc_nonempty: "k \<noteq> [] \<Longrightarrow> join sep (xs @ [k]) \<noteq> []"
proof (induction xs)
  case Nil
  then show ?case by simp
next
  case (Cons a xs)
  obtain y ys where e: "xs @ [k] = y # ys" by (cases "xs @ [k]") auto
  from Cons have "join sep (y # ys) \<noteq> []" by (simp add: e)
  then show ?case by (simp add: e)
qed

lemma key_part_nonempty: "k \<noteq> [] \<Longrightarrow> key_part (lower k) \<noteq> []"
  by (simp add: key_part_def lower_def)

lemma parse_hotkey_nonempty:
  assumes "\<not> invalid_config hotkey_config"
  obtains parsed where "parse_hotkey hotkey_config = Some parsed" and "parsed \<noteq> []"
proof -
  from assms obtain hc where h: "hotkey_config = Some hc" and k: "Key hc \<noteq> []"
    by (cases hotkey_config) (simp_all add: invalid_config_def)
  have "join ''+'' (modifier_parts (Modifiers hc) @ [key_part (lower (Key hc))]) \<noteq> []"
    by (rule join_snoc_nonempty) (rule key_part_nonempty [OF k])
  then show ?thesis using that by (simp add: parse_hotkey_def h)
qed

lemma register_invalid:
  "invalid_config hotkey_config \<Longrightarrow>
   register_global_hotkey pf hotkey_config callback hm =
     (False, hk_log (LogError ''Cannot register hotkey: Invalid HotkeyConfig provided.'')
               (case callback of
                  Some cb \<Rightarrow> hm\<lparr>on_hotkey_pressed_callback := Some cb\<rparr>
                | None \<Rightarrow> hm))"
  by (simp add: register_global_hotkey_def Let_def)

lemma register_platform_failure:
  assumes v: "\<not> invalid_config hotkey_config"
    and f: "start_outcome pf \<noteq> Started"
    and i: "hotkey_inv hm"
  shows "fst (register_global_hotkey pf hotkey_config callback hm) = False \<and>
         listener (snd (register_global_hotkey pf hotkey_config callback hm)) = None \<and>
         \<not> hotkey_active (snd (register_global_hotkey pf hotkey_config callback hm)) \<and>
         current_hotkey_config (snd (register_global_hotkey pf hotkey_config callback hm)) = None \<and>
         LogError ''Failed to register global hotkey''
           \<in> set (hotkey_log (snd (register_global_hotkey pf hotkey_config callback hm)))"
proof -
  from v obtain parsed where p: "parse_hotkey hotkey_config = Some parsed" "parsed \<noteq> []"
    by (rule parse_hotkey_nonempty)
  show ?thesis
    using v f i p
    by (cases "start_outcome pf"; cases callback; cases "listener hm")
       (simp_all add: register_global_hotkey_def Let_def hotkey_inv_def
          stop_listener_internal_def hk_log_def)
qed

lemma register_success:
  assumes v: "\<not> invalid_config hotkey_config"
    and f: "start_outcome pf = Started"
  shows "fst (register_global_hotkey pf hotkey_config callback hm) = True \<and>
         listener (snd (register_global_hotkey pf hotkey_config callback hm))
           = parse_hotkey hotkey_config \<and>
         hotkey_active (snd (register_global_hotkey pf hotkey_config callback hm)) \<and>
         current_hotkey_config (snd (register_global_hotkey pf hotkey_config callback hm))
           = hotkey_config"
proof -
  from v obtain parsed where p: "parse_hotkey hotkey_config = Some parsed" "parsed \<noteq> []"
    by (rule parse_hotkey_nonempty)
  show ?thesis
    using v f p
    by (cases callback; cases "listener hm")
       (simp_all add: register_global_hotkey_def Let_def
          stop_listener_internal_def hk_log_def)
qed

lemma hotkey_inv_init: "hotkey_inv (init_HotkeyManager callback)"
  by (simp add: hotkey_inv_def init_HotkeyManager_def)

lemma hotkey_inv_stop: "hotkey_inv (stop_listener_internal pf hm)"
  by (simp add: hotkey_inv_def stop_listener_internal_def Let_def)

lemma hotkey_inv_unregister: "hotkey_inv (unregister_global_hotkey pf hm)"
  by (simp add: hotkey_inv_def unregister_global_hotkey_def stop_listener_internal_def
        Let_def hk_log_def)

lemma hotkey_inv_register:
  assumes "hotkey_inv hm"
  shows "hotkey_inv (snd (register_global_hotkey pf hotkey_config callback hm))"
proof (cases "invalid_config hotkey_config")
  case True
  then show ?thesis
    using assms by (cases callback) (simp_all add: register_invalid hotkey_inv_def hk_log_def)
next
  case False
  show ?thesis
  proof (cases "start_outcome pf = Started")
    case True
    from False obtain parsed where p: "parse_hotkey hotkey_config = Some parsed"
      by (rule parse_hotkey_nonempty)
    from register_success [OF False True, of callback hm] p show ?thesis
      by (simp add: hotkey_inv_def)
  next
    case f: False
    from register_platform_failure [OF False f assms, of callback] show ?thesis
      by (simp add: hotkey_inv_def)
  qed
qed




section \<open>A cancelled search prompt\<close>

lemma visible_current_popup_emit:
  "visible_current_popup (emit ev s) = visible_current_popup s"
  by (simp add: visible_current_popup_def emit_def split: option.splits)

lemma resolve_target_rejected:
  assumes "NeedsSearch cfg"
    and "dialog_code_of_int (exec_result (dialog e)) = REJECTED"
  shows "resolve_target e name cfg s =
         Inl (emit (DialogShown (last_search_term_arg cfg (last_search_url_str s))
                      (''Search '' @ name @ '' Wiki...'')) s)"
  using assms by (simp add: resolve_target_def exec_dialog_def Let_def)

text \<open>
  C6: when the search prompt is shown and ends as rejected (cancelled, closed, or
  an unknown result code), the handler returns at once. The state it leaves differs
  from the one it found only in the events: the cursor call of the two special
  games and the dialog itself. No popup is made, shown or closed, the settings and
  the files are untouched, and \<^verbatim>\<open>last_search_url_str\<close> and
  \<^verbatim>\<open>current_popup\<close> keep their values.
\<close>

theorem rejected_prompt_aborts:
  assumes "game_configs s = Some cat"
    and "match_game (active_window_title e) cat = Some (name, cfg)"
    and "NeedsSearch cfg"
    and "dialog_code_of_int (exec_result (dialog e)) = REJECTED"
    and "is_special name \<longrightarrow> visible_current_popup s = None"
  shows "handle_hotkey_press e s =
         Inr (s\<lparr>events := events s @ (if is_special name then [ShowCursor] else []) @
                    [DialogShown (last_search_term_arg cfg (last_search_url_str s))
                       (''Search '' @ name @ '' Wiki...'')]\<rparr>)"
proof -
  from assms(2) have c: "cat \<noteq> []" by auto
  show ?thesis
    using assms(1,2,5) c resolve_target_rejected [OF assms(3,4)]
    by (cases "is_special name")
       (simp_all add: handle_hotkey_press_def show_cursor_if_special_def Let_def
          visible_current_popup_emit, simp_all add: emit_def)
qed

theorem rejected_prompt_aborts_witness:
  "handle_hotkey_press (example_env ''Elden Ring'' 0 ''abc'' PopupOk) example_app =
   Inr (example_app\<lparr>events :=
          [DialogShown (Some ''https://wiki.example/valorant'')
             ''Search Elden Ring Wiki...'']\<rparr>)"
proof -
  have g: "game_configs example_app = Some example_catalog"
    by (simp add: example_app_def)
  have m: "match_game (active_window_title (example_env ''Elden Ring'' 0 ''abc'' PopupOk))
             example_catalog = Some (''Elden Ring'', elden_cfg)"
    unfolding example_env_def by code_simp
  have n: "NeedsSearch elden_cfg"
    by (simp add: elden_cfg_def)
  have d: "dialog_code_of_int (exec_result (dialog (example_env ''Elden Ring'' 0 ''abc'' PopupOk)))
           = REJECTED"
    by (simp add: example_env_def dialog_code_of_int_def)
  have sp: "\<not> is_special ''Elden Ring''"
    by code_simp
  have l: "last_search_term_arg elden_cfg (last_search_url_str example_app)
           = Some ''https://wiki.example/valorant''"
    by code_simp
  have ev: "events example_app = []"
    by (simp add: example_app_def)
  show ?thesis
    using rejected_prompt_aborts [OF g m n d] sp l ev
    by simp
qed

section \<open>Replacing and failing popups\<close>

lemma filter_upt_single:
  "p < n \<Longrightarrow> (\<And>i. i < n \<Longrightarrow> P i \<longleftrightarrow> i = p) \<Longrightarrow> filter P [0 ..< n] = [p]"
proof (induction n)
  case 0
  then show ?case by simp
next
  case (Suc n)
  show ?case
  proof (cases "p = n")
    case True
    have "filter P [0 ..< n] = []"
      using Suc.prems(2) True by (auto simp: filter_empty_conv)
    moreover have "P n" using Suc.prems(2) [of n] True by simp
    ultimately show ?thesis using True by simp
  next
    case False
    with Suc.prems(1) have pn: "p < n" by simp
    have "filter P [0 ..< n] = [p]"
      by (rule Suc.IH [OF pn]) (simp add: Suc.prems(2))
    moreover have "\<not> P n" using Suc.prems(2) [of n] False by simp
    ultimately show ?thesis by simp
  qed
qed

lemma filter_upt_none:
  "(\<And>i. i < n \<Longrightarrow> \<not> P i) \<Longrightarrow> filter P [0 ..< n] = []"
  by (auto simp: filter_empty_conv)

lemma live_popups_current:
  assumes "popup_inv s" and "current_popup s = Some p" and "visible (popups s ! p)"
  shows "live_popups s = [p]"
proof -
  from assms(1,2) have pl: "p < length (popups s)" by (simp add: popup_inv_def)
  show ?thesis
    unfolding live_popups_def
  proof (rule filter_upt_single [OF pl])
    fix i assume "i < length (popups s)"
    with assms show "visible (popups s ! i) \<longleftrightarrow> i = p"
      by (auto simp: popup_inv_def)
  qed
qed

lemma live_popups_emit: "live_popups (emit ev s) = live_popups s"
  by (simp add: live_popups_def emit_def)

lemma close_existing_none:
  "current_popup s = None \<Longrightarrow> close_existing s = Inr s"
  by (simp add: close_existing_def)

lemma close_existing_some:
  assumes "current_popup s = Some p" and "p < length (popups s)"
  shows "close_existing s =
         Inr (s\<lparr>popups := (popups s)[p := (popups s ! p)\<lparr>closing_connected := False,
                                                          visible := False\<rparr>],
                events := events s @ [PopupClosing p (geometry (popups s ! p))],
                current_popup := None\<rparr>)"
  using assms
  by (simp add: close_existing_def closeEvent_def disconnect_closing_def set_popup_def
        emit_def Let_def)

lemma live_popups_closed:
  assumes "popup_inv s" and "current_popup s = Some p"
  shows "live_popups
           (s\<lparr>popups := (popups s)[p := (popups s ! p)\<lparr>closing_connected := False,
                                                       visible := False\<rparr>],
              events := evs, current_popup := c\<rparr>) = []"
  unfolding live_popups_def
proof (rule filter_upt_none)
  fix i
  assume "i < length (popups (s\<lparr>popups := (popups s)[p := (popups s ! p)\<lparr>closing_connected := False,
                                                       visible := False\<rparr>],
              events := evs, current_popup := c\<rparr>))"
  then have il: "i < length (popups s)" by simp
  show "\<not> visible (popups (s\<lparr>popups := (popups s)[p := (popups s ! p)\<lparr>closing_connected := False,
                                                       visible := False\<rparr>],
              events := evs, current_popup := c\<rparr>) ! i)"
    using assms il by (cases "i = p") (auto simp: popup_inv_def)
qed

lemma open_popup_ok:
  assumes "target_url_str \<noteq> []" and "close_existing s = Inr s1"
    and "settings s1 = Some st" and "popup_outcome e = PopupOk"
  shows "open_popup e target_url_str s =
         Inr (emit ShowCursor (show_popup (construct_popup target_url_str (Popup st) s1)))"
  using assms by (simp add: open_popup_def create_and_show_def)

lemma live_popups_construct:
  "live_popups (construct_popup target_url_str cfg s) = live_popups s"
proof -
  have "filter (\<lambda>i. visible ((popups s @ [\<lparr>initial_url = target_url_str, popup_config = cfg,
               geometry = initial_geometry cfg, visible = False,
               closing_connected = True\<rparr>]) ! i)) [0 ..< length (popups s)] =
        filter (\<lambda>i. visible (popups s ! i)) [0 ..< length (popups s)]"
    by (rule filter_cong) (simp_all add: nth_append)
  then show ?thesis
    by (simp add: live_popups_def construct_popup_def emit_def)
qed

lemma live_popups_show:
  assumes "live_popups s = []" and "current_popup s = Some q" and "q < length (popups s)"
  shows "live_popups (show_popup s) = [q]"
proof -
  have n: "\<And>i. i < length (popups s) \<Longrightarrow> \<not> visible (popups s ! i)"
    using assms(1) by (auto simp: live_popups_def filter_empty_conv)
  have p: "popups (show_popup s) = (popups s)[q := (popups s ! q)\<lparr>visible := True\<rparr>]"
    by (simp add: show_popup_def assms(2) emit_def set_popup_def)
  show ?thesis
    unfolding live_popups_def p
  proof (rule filter_upt_single)
    show "q < length ((popups s)[q := (popups s ! q)\<lparr>visible := True\<rparr>])"
      using assms(3) by simp
  next
    fix i assume "i < length ((popups s)[q := (popups s ! q)\<lparr>visible := True\<rparr>])"
    then have il: "i < length (popups s)" by simp
    show "visible ((popups s)[q := (popups s ! q)\<lparr>visible := True\<rparr>] ! i) \<longleftrightarrow> i = q"
      using il n [OF il] assms(3) by (cases "i = q") simp_all
  qed
qed

lemma live_popups_disconnect:
  "live_popups (disconnect_closing p s) = live_popups s"
proof -
  have "filter (\<lambda>i. visible ((popups s)[p := (popups s ! p)\<lparr>closing_connected := False\<rparr>] ! i))
          [0 ..< length (popups s)] =
        filter (\<lambda>i. visible (popups s ! i)) [0 ..< length (popups s)]"
  proof (rule filter_cong)
    fix x assume "x \<in> set [0 ..< length (popups s)]"
    then have "x < length (popups s)" by simp
    then show "visible ((popups s)[p := (popups s ! p)\<lparr>closing_connected := False\<rparr>] ! x) =
               visible (popups s ! x)"
      by (cases "x = p") simp_all
  qed simp
  then show ?thesis
    by (simp add: live_popups_def disconnect_closing_def set_popup_def)
qed

lemma popup_inv_from_live:
  assumes "live_popups s = [q]" and "current_popup s = Some q" and "q < length (popups s)"
  shows "popup_inv s"
  unfolding popup_inv_def
proof (intro conjI allI impI)
  fix i
  assume "i < length (popups s)" and "visible (popups s ! i)"
  then have "i \<in> set (live_popups s)" by (simp add: live_popups_def)
  then show "current_popup s = Some i" by (simp add: assms)
next
  fix r assume "current_popup s = Some r"
  then show "r < length (popups s)" using assms by simp
qed

lemma resolve_target_frame:
  assumes "resolve_target e name cfg s = Inr (target_url_str, s2)"
  shows "settings s2 = settings s \<and> game_configs s2 = game_configs s \<and>
         current_popup s2 = current_popup s \<and> popups s2 = popups s \<and>
         disk s2 = disk s \<and> tray_icon s2 = tray_icon s \<and>
         last_search_url_str s2 = Some target_url_str"
proof (cases "NeedsSearch cfg")
  case False
  with assms show ?thesis
    by (auto simp: resolve_target_def Let_def set_last_def)
next
  case True
  obtain code t where x:
    "exec_dialog (last_search_term_arg cfg (last_search_url_str s)) (dialog e) = (code, t)"
    by (cases "exec_dialog (last_search_term_arg cfg (last_search_url_str s)) (dialog e)")
  show ?thesis
  proof (cases code)
    case ACCEPTED
    with assms True x show ?thesis
      by (auto simp: resolve_target_def Let_def set_last_def emit_def split: if_splits)
  next
    case REJECTED
    with assms True x show ?thesis
      by (simp add: resolve_target_def Let_def)
  next
    case OPEN_LAST
    with assms True x show ?thesis
      by (auto simp: resolve_target_def Let_def set_last_def emit_def
            split: if_splits option.splits)
  qed
qed

lemma handle_hotkey_press_opens:
  assumes "game_configs s = Some cat"
    and "match_game (active_window_title e) cat = Some (name, cfg)"
    and "is_special name \<longrightarrow> visible_current_popup s = None"
    and "resolve_target e name cfg (show_cursor_if_special name s) = Inr (target_url_str, s2)"
  shows "handle_hotkey_press e s = open_popup e target_url_str s2"
proof -
  from assms(2) have c: "cat \<noteq> []" by auto
  have v: "(if is_special name then visible_current_popup (show_cursor_if_special name s)
            else None) = None"
    using assms(3) by (simp add: show_cursor_if_special_def visible_current_popup_emit)
  show ?thesis
    using assms(1,2,4) c v by (simp add: handle_hotkey_press_def Let_def)
qed

lemma show_cursor_if_special_frame:
  "settings (show_cursor_if_special name s) = settings s \<and>
   current_popup (show_cursor_if_special name s) = current_popup s \<and>
   popups (show_cursor_if_special name s) = popups s \<and>
   disk (show_cursor_if_special name s) = disk s \<and>
   tray_icon (show_cursor_if_special name s) = tray_icon s \<and>
   last_search_url_str (show_cursor_if_special name s) = last_search_url_str s"
  by (simp add: show_cursor_if_special_def emit_def)

lemma live_popups_no_current:
  assumes "popup_inv s" and "current_popup s = None"
  shows "live_popups s = []"
  unfolding live_popups_def
proof (rule filter_upt_none)
  fix i assume "i < length (popups s)"
  with assms show "\<not> visible (popups s ! i)" by (auto simp: popup_inv_def)
qed

lemma live_popups_cong:
  "popups s' = popups s \<Longrightarrow> live_popups s' = live_popups s"
  by (simp add: live_popups_def)

lemma popup_inv_cong:
  "popups s' = popups s \<Longrightarrow> current_popup s' = current_popup s \<Longrightarrow>
   popup_inv s' = popup_inv s"
  by (simp add: popup_inv_def)

lemma live_popups_notify_popup_error:
  "live_popups (notify_popup_error s) = live_popups s"
  by (simp add: notify_popup_error_def notify_def live_popups_emit)

lemma close_existing_frame:
  assumes "popup_inv s"
  obtains s1 where "close_existing s = Inr s1"
    and "live_popups s1 = []" and "current_popup s1 = None"
    and "settings s1 = settings s" and "disk s1 = disk s" and "tray_icon s1 = tray_icon s"
    and "last_search_url_str s1 = last_search_url_str s"
    and "length (popups s1) = length (popups s)"
    and "events s1 = events s @
           (case current_popup s of None \<Rightarrow> []
            | Some p \<Rightarrow> [PopupClosing p (geometry (popups s ! p))])"
proof (cases "current_popup s")
  case None
  show ?thesis
  proof (rule that [of s])
    show "close_existing s = Inr s" by (rule close_existing_none [OF None])
    show "live_popups s = []" by (rule live_popups_no_current [OF assms None])
  qed (simp_all add: None)
next
  case (Some p)
  from assms Some have pl: "p < length (popups s)" by (simp add: popup_inv_def)
  show ?thesis
  proof (rule that)
    show "close_existing s =
         Inr (s\<lparr>popups := (popups s)[p := (popups s ! p)\<lparr>closing_connected := False,
                                                          visible := False\<rparr>],
                events := events s @ [PopupClosing p (geometry (popups s ! p))],
                current_popup := None\<rparr>)"
      by (rule close_existing_some [OF Some pl])
    show "live_popups (s\<lparr>popups := (popups s)[p := (popups s ! p)\<lparr>closing_connected := False,
                                                          visible := False\<rparr>],
                events := events s @ [PopupClosing p (geometry (popups s ! p))],
                current_popup := None\<rparr>) = []"
      by (rule live_popups_closed [OF assms Some])
  qed (simp_all add: Some)
qed

lemma example_match_elden:
  "match_game (active_window_title (example_env ''Elden Ring'' code typed outcome))
     example_catalog = Some (''Elden Ring'', elden_cfg)"
proof -
  have "match_game ''Elden Ring'' example_catalog = Some (''Elden Ring'', elden_cfg)"
    by code_simp
  then show ?thesis by (simp add: example_env_def)
qed

lemma example_match_valorant:
  "match_game (active_window_title (example_env ''VALORANT - Main Menu'' code typed outcome))
     example_catalog = Some (''Valorant'', valorant_cfg)"
proof -
  have "match_game ''VALORANT - Main Menu'' example_catalog = Some (''Valorant'', valorant_cfg)"
    by code_simp
  then show ?thesis by (simp add: example_env_def)
qed

lemma example_not_special: "\<not> is_special ''Elden Ring''"
  by code_simp

lemma example_special: "is_special ''Valorant''"
  by code_simp

lemma example_resolve_elden:
  "resolve_target (example_env ''Elden Ring'' 1 ''boss'' outcome) ''Elden Ring'' elden_cfg
     (show_cursor_if_special ''Elden Ring'' example_app) =
   Inr (''https://wiki.example/search?q=Bosses'',
        example_app\<lparr>last_search_url_str := Some ''https://wiki.example/search?q=Bosses'',
                      events := [DialogShown (Some ''https://wiki.example/valorant'')
                                   ''Search Elden Ring Wiki...'']\<rparr>)"
proof -
  have n: "NeedsSearch elden_cfg" by (simp add: elden_cfg_def)
  have l: "last_search_term_arg elden_cfg (Some ''https://wiki.example/valorant'')
           = Some ''https://wiki.example/valorant''"
    by code_simp
  have sb: "strip ''boss'' = ''boss''" by code_simp
  have bu: "build_url elden_cfg (Some ''boss'') = ''https://wiki.example/search?q=Bosses''"
    by code_simp
  have la: "last_search_url_str example_app = Some ''https://wiki.example/valorant''"
    and ev: "events example_app = []"
    by (simp_all add: example_app_def)
  show ?thesis
    by (simp add: resolve_target_def Let_def exec_dialog_def example_env_def
          dialog_code_of_int_def truthy_def set_last_def emit_def
          show_cursor_if_special_def example_not_special n l sb bu la ev)
qed

lemma example_resolve_valorant:
  "resolve_target (example_env ''VALORANT - Main Menu'' code typed outcome) ''Valorant''
     valorant_cfg (show_cursor_if_special ''Valorant'' idle_app) =
   Inr (''https://wiki.example/valorant'',
        idle_app\<lparr>last_search_url_str := Some ''https://wiki.example/valorant'',
                   events := [ShowCursor]\<rparr>)"
proof -
  have n: "\<not> NeedsSearch valorant_cfg" by (simp add: valorant_cfg_def)
  have b: "BaseUrl valorant_cfg = ''https://wiki.example/valorant''"
    by (simp add: valorant_cfg_def)
  have ev: "events idle_app = []" by (simp add: idle_app_def)
  show ?thesis
    by (simp add: resolve_target_no_search [OF n] b set_last_def show_cursor_if_special_def
          example_special emit_def ev)
qed

lemma example_app_popup_inv: "popup_inv example_app"
  by (simp add: popup_inv_def example_app_def example_popup_def)

lemma idle_app_popup_inv: "popup_inv idle_app"
  by (simp add: popup_inv_def idle_app_def)

lemma example_app_facts:
  "game_configs example_app = Some example_catalog"
  "settings example_app = Some default_settings"
  "current_popup example_app = Some 0"
  "popups example_app = [example_popup]"
  "tray_icon example_app"
  "visible_current_popup example_app = Some 0"
  by (simp_all add: example_app_def example_popup_def visible_current_popup_def)

lemma idle_app_facts:
  "game_configs idle_app = Some example_catalog"
  "settings idle_app = Some default_settings"
  "current_popup idle_app = None"
  "popups idle_app = []"
  "tray_icon idle_app"
  "visible_current_popup idle_app = None"
  "last_search_url_str idle_app = None"
  by (simp_all add: idle_app_def visible_current_popup_def)

section \<open>Replacing a popup that is on screen\<close>

text \<open>
  C2, as stated, fails in its middle part: the handler disconnects
  \<^verbatim>\<open>popup_closing\<close> from \<^verbatim>\<open>_handle_popup_closing\<close> before it closes the old
  popup, so the geometry the signal carries reaches nobody. Here the popup on
  screen was moved to (5, 6) and resized to 700 by 500 while the settings hold 800
  by 600 at (100, 100); after the replacement the settings and the settings file
  are what they were, no \<^const>\<open>SettingsSaved\<close> event occurred, and the new popup is
  placed by the old settings.
\<close>

theorem replaced_popup_geometry_lost_counterexample:
  "geometry example_popup = \<lparr>rect_x = 5, rect_y = 6, rect_width = 700, rect_height = 500\<rparr> \<and>
   settings example_app = Some default_settings \<and>
   handle_hotkey_press (example_env ''Elden Ring'' 1 ''boss'' PopupOk) example_app =
     Inr (example_app
            \<lparr>current_popup := Some 1,
             last_search_url_str := Some ''https://wiki.example/search?q=Bosses'',
             popups :=
               [example_popup\<lparr>visible := False, closing_connected := False\<rparr>,
                \<lparr>initial_url = ''https://wiki.example/search?q=Bosses'',
                 popup_config = Popup default_settings,
                 geometry = \<lparr>rect_x = 100, rect_y = 100, rect_width = 800,
                              rect_height = 600\<rparr>,
                 visible = True, closing_connected = True\<rparr>],
             events :=
               [DialogShown (Some ''https://wiki.example/valorant'')
                  ''Search Elden Ring Wiki...'',
                PopupClosing 0 \<lparr>rect_x = 5, rect_y = 6, rect_width = 700, rect_height = 500\<rparr>,
                PopupConstructed 1, PopupShown 1, ShowCursor]\<rparr>)"
proof -
  have sp: "is_special ''Elden Ring'' \<longrightarrow> visible_current_popup example_app = None"
    by (simp add: example_not_special)
  have h: "handle_hotkey_press (example_env ''Elden Ring'' 1 ''boss'' PopupOk) example_app =
           open_popup (example_env ''Elden Ring'' 1 ''boss'' PopupOk)
             ''https://wiki.example/search?q=Bosses''
             (example_app\<lparr>last_search_url_str := Some ''https://wiki.example/search?q=Bosses'',
                      events := [DialogShown (Some ''https://wiki.example/valorant'')
                                   ''Search Elden Ring Wiki...'']\<rparr>)"
    by (rule handle_hotkey_press_opens
              [OF example_app_facts(1) example_match_elden sp example_resolve_elden])
  have c: "close_existing
             (example_app\<lparr>last_search_url_str := Some ''https://wiki.example/search?q=Bosses'',
                      events := [DialogShown (Some ''https://wiki.example/valorant'')
                                   ''Search Elden Ring Wiki...'']\<rparr>) =
           Inr (example_app
                  \<lparr>last_search_url_str := Some ''https://wiki.example/search?q=Bosses'',
                   popups := [example_popup\<lparr>closing_connected := False, visible := False\<rparr>],
                   events := [DialogShown (Some ''https://wiki.example/valorant'')
                                ''Search Elden Ring Wiki...'',
                              PopupClosing 0 (geometry example_popup)],
                   current_popup := None\<rparr>)"
    by (simp add: close_existing_def closeEvent_def disconnect_closing_def set_popup_def
          emit_def Let_def example_app_facts)
  have g: "geometry example_popup =
           \<lparr>rect_x = 5, rect_y = 6, rect_width = 700, rect_height = 500\<rparr>"
    by (simp add: example_popup_def)
  have ig: "initial_geometry (Popup default_settings) =
            \<lparr>rect_x = 100, rect_y = 100, rect_width = 800, rect_height = 600\<rparr>"
    by (simp add: initial_geometry_def default_settings_def get_default_popup_config_def)
  have o: "open_popup (example_env ''Elden Ring'' 1 ''boss'' PopupOk)
             ''https://wiki.example/search?q=Bosses''
             (example_app\<lparr>last_search_url_str := Some ''https://wiki.example/search?q=Bosses'',
                      events := [DialogShown (Some ''https://wiki.example/valorant'')
                                   ''Search Elden Ring Wiki...'']\<rparr>) =
     Inr (example_app
            \<lparr>current_popup := Some 1,
             last_search_url_str := Some ''https://wiki.example/search?q=Bosses'',
             popups :=
               [example_popup\<lparr>visible := False, closing_connected := False\<rparr>,
                \<lparr>initial_url = ''https://wiki.example/search?q=Bosses'',
                 popup_config = Popup default_settings,
                 geometry = \<lparr>rect_x = 100, rect_y = 100, rect_width = 800,
                              rect_height = 600\<rparr>,
                 visible = True, closing_connected = True\<rparr>],
             events :=
               [DialogShown (Some ''https://wiki.example/valorant'')
                  ''Search Elden Ring Wiki...'',
                PopupClosing 0 \<lparr>rect_x = 5, rect_y = 6, rect_width = 700, rect_height = 500\<rparr>,
                PopupConstructed 1, PopupShown 1, ShowCursor]\<rparr>)"
    by (simp add: open_popup_def c create_and_show_def example_env_def construct_popup_def
          show_popup_def emit_def set_popup_def example_app_facts g ig)
  show ?thesis
    by (simp add: g example_app_facts h o)
qed

text \<open>
  C2, amended: when the open-popup block runs while a popup is on screen, the old
  popup is disconnected and closed, and only then the new one is built and shown.
  At every point in between at most one popup is on screen (the old one, none, none,
  the new one), and the old popup's \<^verbatim>\<open>popup_closing\<close> signal is emitted with its
  final geometry before the new popup is shown. That geometry is not captured: the
  settings and the settings file stay as they were, and the new popup is placed by
  the settings as they were before.
\<close>

theorem open_popup_replaces_live_popup:
  fixes s :: AppLogic and p :: nat and st :: AppSettings and target_url_str :: string
  defines "s1 \<equiv> s\<lparr>popups := (popups s)[p := (popups s ! p)\<lparr>closing_connected := False,
                                                            visible := False\<rparr>],
                    events := events s @ [PopupClosing p (geometry (popups s ! p))],
                    current_popup := None\<rparr>"
  defines "s2 \<equiv> construct_popup target_url_str (Popup st) s1"
  defines "s3 \<equiv> show_popup s2"
  assumes inv: "popup_inv s"
    and cur: "current_popup s = Some p"
    and vis: "visible (popups s ! p)"
    and st: "settings s = Some st"
    and t: "target_url_str \<noteq> []"
    and ok: "popup_outcome e = PopupOk"
  shows "close_existing s = Inr s1 \<and>
         open_popup e target_url_str s = Inr (emit ShowCursor s3) \<and>
         live_popups s = [p] \<and>
         live_popups (disconnect_closing p s) = [p] \<and>
         live_popups s1 = [] \<and>
         live_popups s2 = [] \<and>
         live_popups s3 = [length (popups s)] \<and>
         live_popups (emit ShowCursor s3) = [length (popups s)] \<and>
         events (emit ShowCursor s3) =
           events s @ [PopupClosing p (geometry (popups s ! p)),
                       PopupConstructed (length (popups s)),
                       PopupShown (length (popups s)), ShowCursor] \<and>
         settings (emit ShowCursor s3) = settings s \<and>
         disk (emit ShowCursor s3) = disk s \<and>
         current_popup (emit ShowCursor s3) = Some (length (popups s)) \<and>
         popups (emit ShowCursor s3) ! length (popups s) =
           \<lparr>initial_url = target_url_str, popup_config = Popup st,
            geometry = initial_geometry (Popup st), visible = True,
            closing_connected = True\<rparr> \<and>
         popup_inv (emit ShowCursor s3)"
proof -
  from inv cur have pl: "p < length (popups s)" by (simp add: popup_inv_def)
  have c: "close_existing s = Inr s1"
    unfolding s1_def by (rule close_existing_some [OF cur pl])
  have st1: "settings s1 = Some st" by (simp add: s1_def st)
  have o: "open_popup e target_url_str s = Inr (emit ShowCursor s3)"
    unfolding s3_def s2_def by (rule open_popup_ok [OF t c st1 ok])
  have l0: "live_popups s = [p]"
    by (rule live_popups_current [OF inv cur vis])
  have l0': "live_popups (disconnect_closing p s) = [p]"
    by (simp add: live_popups_disconnect l0)
  have l1: "live_popups s1 = []"
    unfolding s1_def by (rule live_popups_closed [OF inv cur])
  have l2: "live_popups s2 = []"
    by (simp add: s2_def live_popups_construct l1)
  have len1: "length (popups s1) = length (popups s)"
    by (simp add: s1_def)
  have cur2: "current_popup s2 = Some (length (popups s))"
    by (simp add: s2_def construct_popup_def emit_def len1)
  have len2: "length (popups s2) = Suc (length (popups s))"
    by (simp add: s2_def construct_popup_def emit_def len1)
  have new2: "popups s2 ! length (popups s) =
           \<lparr>initial_url = target_url_str, popup_config = Popup st,
            geometry = initial_geometry (Popup st), visible = False,
            closing_connected = True\<rparr>"
    using len1 by (simp add: s2_def construct_popup_def emit_def nth_append)
  have ev2: "events s2 = events s @ [PopupClosing p (geometry (popups s ! p)),
                                    PopupConstructed (length (popups s))]"
    by (simp add: s2_def construct_popup_def emit_def len1) (simp add: s1_def)
  have se2: "settings s2 = settings s" "disk s2 = disk s"
    by (simp_all add: s2_def construct_popup_def emit_def) (simp_all add: s1_def)
  have l3: "live_popups s3 = [length (popups s)]"
    unfolding s3_def by (rule live_popups_show [OF l2 cur2]) (simp add: len2)
  have l4: "live_popups (emit ShowCursor s3) = [length (popups s)]"
    by (simp add: live_popups_emit l3)
  have ev: "events (emit ShowCursor s3) =
           events s @ [PopupClosing p (geometry (popups s ! p)),
                       PopupConstructed (length (popups s)),
                       PopupShown (length (popups s)), ShowCursor]"
    by (simp add: s3_def show_popup_def cur2 emit_def set_popup_def ev2)
  have se: "settings (emit ShowCursor s3) = settings s"
    by (simp add: s3_def show_popup_def cur2 emit_def set_popup_def se2)
  have di: "disk (emit ShowCursor s3) = disk s"
    by (simp add: s3_def show_popup_def cur2 emit_def set_popup_def se2)
  have cu: "current_popup (emit ShowCursor s3) = Some (length (popups s))"
    by (simp add: s3_def show_popup_def cur2 emit_def set_popup_def)
  have len4: "length (popups (emit ShowCursor s3)) = Suc (length (popups s))"
    by (simp add: s3_def show_popup_def cur2 emit_def set_popup_def len2)
  have np: "popups (emit ShowCursor s3) ! length (popups s) =
           \<lparr>initial_url = target_url_str, popup_config = Popup st,
            geometry = initial_geometry (Popup st), visible = True,
            closing_connected = True\<rparr>"
    by (simp add: s3_def show_popup_def cur2 emit_def set_popup_def len2 new2)
  have pi: "popup_inv (emit ShowCursor s3)"
    by (rule popup_inv_from_live [OF l4 cu]) (simp add: len4)
  show ?thesis
    by (intro conjI) (fact c o l0 l0' l1 l2 l3 l4 ev se di cu np pi)+
qed

theorem open_popup_replaces_live_popup_witness:
  "live_popups example_app = [0] \<and>
   open_popup (example_env ''Elden Ring'' 1 ''boss'' PopupOk)
       ''https://wiki.example/search?q=Bosses'' example_app =
     Inr (example_app
            \<lparr>current_popup := Some 1,
             popups :=
               [example_popup\<lparr>visible := False, closing_connected := False\<rparr>,
                \<lparr>initial_url = ''https://wiki.example/search?q=Bosses'',
                 popup_config = Popup default_settings,
                 geometry = \<lparr>rect_x = 100, rect_y = 100, rect_width = 800,
                              rect_height = 600\<rparr>,
                 visible = True, closing_connected = True\<rparr>],
             events :=
               [PopupClosing 0 \<lparr>rect_x = 5, rect_y = 6, rect_width = 700, rect_height = 500\<rparr>,
                PopupConstructed 1, PopupShown 1, ShowCursor]\<rparr>)"
proof -
  have v: "visible (popups example_app ! 0)"
    by (simp add: example_app_def example_popup_def)
  have t: "''https://wiki.example/search?q=Bosses'' \<noteq> []"
    by simp
  have ok: "popup_outcome (example_env ''Elden Ring'' 1 ''boss'' PopupOk) = PopupOk"
    by (simp add: example_env_def)
  have g: "geometry example_popup =
           \<lparr>rect_x = 5, rect_y = 6, rect_width = 700, rect_height = 500\<rparr>"
    by (simp add: example_popup_def)
  have ig: "initial_geometry (Popup default_settings) =
            \<lparr>rect_x = 100, rect_y = 100, rect_width = 800, rect_height = 600\<rparr>"
    by (simp add: initial_geometry_def default_settings_def get_default_popup_config_def)
  have ev: "events example_app = []"
    by (simp add: example_app_def)
  show ?thesis
    using open_popup_replaces_live_popup
            [OF example_app_popup_inv example_app_facts(3) v example_app_facts(2) t ok]
    by (simp add: construct_popup_def show_popup_def emit_def set_popup_def
          example_app_facts g ig ev)
qed

section \<open>A popup that cannot be created\<close>

text \<open>
  C3, as stated, fails: \<^verbatim>\<open>last_search_url_str\<close> is set when the target is
  resolved, before the popup is attempted, and is not taken back when the attempt
  fails; and the popup that was on screen is closed and forgotten before the
  attempt. First run: a fresh application, where the failing invocation leaves a
  last URL behind. Second run: an application with a popup on screen, which the
  failing invocation closes.
\<close>

theorem popup_failure_changes_session_counterexample:
  "last_search_url_str idle_app = None \<and>
   handle_hotkey_press (example_env ''VALORANT - Main Menu'' 0 [] ConstructorRaises) idle_app =
     Inr (idle_app\<lparr>last_search_url_str := Some ''https://wiki.example/valorant'',
                    events := [ShowCursor,
                               Notify ''Error opening wiki'' ''GameWikiOverlay Error'']\<rparr>) \<and>
   current_popup example_app = Some 0 \<and>
   handle_hotkey_press (example_env ''Elden Ring'' 1 ''boss'' ConstructorRaises) example_app =
     Inr (example_app
            \<lparr>current_popup := None,
             last_search_url_str := Some ''https://wiki.example/search?q=Bosses'',
             popups := [example_popup\<lparr>visible := False, closing_connected := False\<rparr>],
             events :=
               [DialogShown (Some ''https://wiki.example/valorant'')
                  ''Search Elden Ring Wiki...'',
                PopupClosing 0 \<lparr>rect_x = 5, rect_y = 6, rect_width = 700, rect_height = 500\<rparr>,
                Notify ''Error opening wiki'' ''GameWikiOverlay Error'']\<rparr>)"
proof -
  have sp1: "is_special ''Valorant'' \<longrightarrow> visible_current_popup idle_app = None"
    by (simp add: idle_app_facts)
  have h1: "handle_hotkey_press (example_env ''VALORANT - Main Menu'' 0 [] ConstructorRaises)
              idle_app =
            open_popup (example_env ''VALORANT - Main Menu'' 0 [] ConstructorRaises)
              ''https://wiki.example/valorant''
              (idle_app\<lparr>last_search_url_str := Some ''https://wiki.example/valorant'',
                         events := [ShowCursor]\<rparr>)"
    by (rule handle_hotkey_press_opens
              [OF idle_app_facts(1) example_match_valorant sp1 example_resolve_valorant])
  have o1: "open_popup (example_env ''VALORANT - Main Menu'' 0 [] ConstructorRaises)
              ''https://wiki.example/valorant''
              (idle_app\<lparr>last_search_url_str := Some ''https://wiki.example/valorant'',
                         events := [ShowCursor]\<rparr>) =
     Inr (idle_app\<lparr>last_search_url_str := Some ''https://wiki.example/valorant'',
                    events := [ShowCursor,
                               Notify ''Error opening wiki'' ''GameWikiOverlay Error'']\<rparr>)"
    by (simp add: open_popup_def close_existing_def create_and_show_def example_env_def
          notify_popup_error_def notify_def emit_def idle_app_facts)
  have sp2: "is_special ''Elden Ring'' \<longrightarrow> visible_current_popup example_app = None"
    by (simp add: example_not_special)
  have h2: "handle_hotkey_press (example_env ''Elden Ring'' 1 ''boss'' ConstructorRaises)
              example_app =
           open_popup (example_env ''Elden Ring'' 1 ''boss'' ConstructorRaises)
             ''https://wiki.example/search?q=Bosses''
             (example_app\<lparr>last_search_url_str := Some ''https://wiki.example/search?q=Bosses'',
                      events := [DialogShown (Some ''https://wiki.example/valorant'')
                                   ''Search Elden Ring Wiki...'']\<rparr>)"
    by (rule handle_hotkey_press_opens
              [OF example_app_facts(1) example_match_elden sp2 example_resolve_elden])
  have g: "geometry example_popup =
           \<lparr>rect_x = 5, rect_y = 6, rect_width = 700, rect_height = 500\<rparr>"
    by (simp add: example_popup_def)
  have c: "close_existing
             (example_app\<lparr>last_search_url_str := Some ''https://wiki.example/search?q=Bosses'',
                      events := [DialogShown (Some ''https://wiki.example/valorant'')
                                   ''Search Elden Ring Wiki...'']\<rparr>) =
           Inr (example_app
                  \<lparr>last_search_url_str := Some ''https://wiki.example/search?q=Bosses'',
                   popups := [example_popup\<lparr>closing_connected := False, visible := False\<rparr>],
                   events := [DialogShown (Some ''https://wiki.example/valorant'')
                                ''Search Elden Ring Wiki...'',
                              PopupClosing 0 (geometry example_popup)],
                   current_popup := None\<rparr>)"
    by (simp add: close_existing_def closeEvent_def disconnect_closing_def set_popup_def
          emit_def Let_def example_app_facts)
  have o2: "open_popup (example_env ''Elden Ring'' 1 ''boss'' ConstructorRaises)
             ''https://wiki.example/search?q=Bosses''
             (example_app\<lparr>last_search_url_str := Some ''https://wiki.example/search?q=Bosses'',
                      events := [DialogShown (Some ''https://wiki.example/valorant'')
                                   ''Search Elden Ring Wiki...'']\<rparr>) =
     Inr (example_app
            \<lparr>current_popup := None,
             last_search_url_str := Some ''https://wiki.example/search?q=Bosses'',
             popups := [example_popup\<lparr>visible := False, closing_connected := False\<rparr>],
             events :=
               [DialogShown (Some ''https://wiki.example/valorant'')
                  ''Search Elden Ring Wiki...'',
                PopupClosing 0 \<lparr>rect_x = 5, rect_y = 6, rect_width = 700, rect_height = 500\<rparr>,
                Notify ''Error opening wiki'' ''GameWikiOverlay Error'']\<rparr>)"
    by (simp add: open_popup_def c create_and_show_def example_env_def
          notify_popup_error_def notify_def emit_def example_app_facts g)
  show ?thesis
    by (simp add: idle_app_facts example_app_facts h1 o1 h2 o2)
qed

text \<open>
  C3, amended: when a target URL was resolved and building or showing the popup
  raises, the handler still returns normally; no popup is on screen afterwards (the
  previous one, if any, was closed first, without its geometry being saved); the
  notification is emitted when the tray icon exists; the settings and the settings
  file are unchanged. The session state is not restored:
  \<^verbatim>\<open>last_search_url_str\<close> is the target that failed to open, and
  \<^verbatim>\<open>current_popup\<close> is \<^verbatim>\<open>None\<close> when the constructor raised and the new,
  never shown popup when \<^verbatim>\<open>show\<close> raised.
\<close>

theorem popup_creation_failure:
  assumes g: "game_configs s = Some cat"
    and m: "match_game (active_window_title e) cat = Some (name, cfg)"
    and sp: "is_special name \<longrightarrow> visible_current_popup s = None"
    and r: "resolve_target e name cfg (show_cursor_if_special name s) = Inr (target_url_str, s2)"
    and t: "target_url_str \<noteq> []"
    and st: "settings s = Some st"
    and inv: "popup_inv s"
    and f: "popup_outcome e \<noteq> PopupOk"
  shows "\<exists>s'. handle_hotkey_press e s = Inr s' \<and>
           live_popups s' = [] \<and>
           last_search_url_str s' = Some target_url_str \<and>
           current_popup s' =
             (if popup_outcome e = ShowRaises then Some (length (popups s)) else None) \<and>
           settings s' = settings s \<and>
           disk s' = disk s \<and>
           events s' =
             events s2 @
             (case current_popup s of None \<Rightarrow> []
              | Some p \<Rightarrow> [PopupClosing p (geometry (popups s ! p))]) @
             (if popup_outcome e = ShowRaises then [PopupConstructed (length (popups s))]
              else []) @
             (if tray_icon s then [Notify ''Error opening wiki'' ''GameWikiOverlay Error'']
              else [])"
proof -
  note fr = resolve_target_frame [OF r] show_cursor_if_special_frame [of name s]
  have h: "handle_hotkey_press e s = open_popup e target_url_str s2"
    by (rule handle_hotkey_press_opens [OF g m sp r])
  have p2: "popups s2 = popups s" using fr by simp
  have c2: "current_popup s2 = current_popup s" using fr by simp
  have se2: "settings s2 = settings s" using fr by simp
  have di2: "disk s2 = disk s" using fr by simp
  have tr2: "tray_icon s2 = tray_icon s" using fr by simp
  have la2: "last_search_url_str s2 = Some target_url_str" using fr by simp
  have inv2: "popup_inv s2"
    using inv by (simp add: popup_inv_cong [OF p2 c2])
  from inv2 obtain s3 where c: "close_existing s2 = Inr s3"
    and l3: "live_popups s3 = []" and cu3: "current_popup s3 = None"
    and se3: "settings s3 = settings s2" and di3: "disk s3 = disk s2"
    and tr3: "tray_icon s3 = tray_icon s2"
    and la3: "last_search_url_str s3 = last_search_url_str s2"
    and len3: "length (popups s3) = length (popups s2)"
    and ev3': "events s3 = events s2 @
           (case current_popup s2 of None \<Rightarrow> []
            | Some p \<Rightarrow> [PopupClosing p (geometry (popups s2 ! p))])"
    by (rule close_existing_frame)
  have ev3: "events s3 = events s2 @
           (case current_popup s of None \<Rightarrow> []
            | Some p \<Rightarrow> [PopupClosing p (geometry (popups s ! p))])"
    using ev3' by (simp add: p2 c2 split: option.splits)
  have st3: "settings s3 = Some st" by (simp add: se3 se2 st)
  have len3s: "length (popups s3) = length (popups s)" by (simp add: len3 p2)
  have o: "open_popup e target_url_str s2 = Inr (create_and_show e target_url_str (Popup st) s3)"
    using t c st3 by (simp add: open_popup_def)
  show ?thesis
  proof (cases "popup_outcome e")
    case PopupOk
    with f show ?thesis by simp
  next
    case ConstructorRaises
    have x: "create_and_show e target_url_str (Popup st) s3 = notify_popup_error s3"
      by (simp add: create_and_show_def ConstructorRaises)
    show ?thesis
    proof (intro exI conjI)
      show "handle_hotkey_press e s = Inr (notify_popup_error s3)"
        by (simp add: h o x)
      show "live_popups (notify_popup_error s3) = []"
        by (simp add: live_popups_notify_popup_error l3)
      show "last_search_url_str (notify_popup_error s3) = Some target_url_str"
        using la3 la2 by (simp add: notify_popup_error_def notify_def emit_def)
      show "current_popup (notify_popup_error s3) =
              (if popup_outcome e = ShowRaises then Some (length (popups s)) else None)"
        using cu3 by (simp add: notify_popup_error_def notify_def emit_def ConstructorRaises)
      show "settings (notify_popup_error s3) = settings s"
        using se3 se2 by (simp add: notify_popup_error_def notify_def emit_def)
      show "disk (notify_popup_error s3) = disk s"
        using di3 di2 by (simp add: notify_popup_error_def notify_def emit_def)
      show "events (notify_popup_error s3) =
             events s2 @
             (case current_popup s of None \<Rightarrow> []
              | Some p \<Rightarrow> [PopupClosing p (geometry (popups s ! p))]) @
             (if popup_outcome e = ShowRaises then [PopupConstructed (length (popups s))]
              else []) @
             (if tray_icon s then [Notify ''Error opening wiki'' ''GameWikiOverlay Error'']
              else [])"
        using ev3 tr3 tr2
        by (simp add: notify_popup_error_def notify_def emit_def ConstructorRaises)
    qed
  next
    case ShowRaises
    have x: "create_and_show e target_url_str (Popup st) s3 =
             notify_popup_error (construct_popup target_url_str (Popup st) s3)"
      by (simp add: create_and_show_def ShowRaises)
    show ?thesis
    proof (intro exI conjI)
      show "handle_hotkey_press e s =
            Inr (notify_popup_error (construct_popup target_url_str (Popup st) s3))"
        by (simp add: h o x)
      show "live_popups (notify_popup_error (construct_popup target_url_str (Popup st) s3)) = []"
        by (simp add: live_popups_notify_popup_error live_popups_construct l3)
      show "last_search_url_str
              (notify_popup_error (construct_popup target_url_str (Popup st) s3)) =
            Some target_url_str"
        using la3 la2
        by (simp add: notify_popup_error_def notify_def emit_def construct_popup_def)
      show "current_popup (notify_popup_error (construct_popup target_url_str (Popup st) s3)) =
              (if popup_outcome e = ShowRaises then Some (length (popups s)) else None)"
        using len3s
        by (simp add: notify_popup_error_def notify_def emit_def construct_popup_def ShowRaises)
      show "settings (notify_popup_error (construct_popup target_url_str (Popup st) s3)) =
            settings s"
        using se3 se2 by (simp add: notify_popup_error_def notify_def emit_def construct_popup_def)
      show "disk (notify_popup_error (construct_popup target_url_str (Popup st) s3)) = disk s"
        using di3 di2 by (simp add: notify_popup_error_def notify_def emit_def construct_popup_def)
      show "events (notify_popup_error (construct_popup target_url_str (Popup st) s3)) =
             events s2 @
             (case current_popup s of None \<Rightarrow> []
              | Some p \<Rightarrow> [PopupClosing p (geometry (popups s ! p))]) @
             (if popup_outcome e = ShowRaises then [PopupConstructed (length (popups s))]
              else []) @
             (if tray_icon s then [Notify ''Error opening wiki'' ''GameWikiOverlay Error'']
              else [])"
        using ev3 tr3 tr2 len3s
        by (simp add: notify_popup_error_def notify_def emit_def construct_popup_def ShowRaises)
    qed
  qed
qed

theorem popup_creation_failure_witness:
  "\<exists>s'. handle_hotkey_press (example_env ''Elden Ring'' 1 ''boss'' ShowRaises) example_app
          = Inr s' \<and>
        live_popups s' = [] \<and>
        last_search_url_str s' = Some ''https://wiki.example/search?q=Bosses'' \<and>
        current_popup s' = Some 1 \<and>
        settings s' = Some default_settings \<and>
        disk s' = example_fs \<and>
        events s' =
          [DialogShown (Some ''https://wiki.example/valorant'') ''Search Elden Ring Wiki...'',
           PopupClosing 0 \<lparr>rect_x = 5, rect_y = 6, rect_width = 700, rect_height = 500\<rparr>,
           PopupConstructed 1,
           Notify ''Error opening wiki'' ''GameWikiOverlay Error'']"
proof -
  have sp: "is_special ''Elden Ring'' \<longrightarrow> visible_current_popup example_app = None"
    by (simp add: example_not_special)
  have t: "''https://wiki.example/search?q=Bosses'' \<noteq> []"
    by simp
  have f: "popup_outcome (example_env ''Elden Ring'' 1 ''boss'' ShowRaises) \<noteq> PopupOk"
    by (simp add: example_env_def)
  have sr: "popup_outcome (example_env ''Elden Ring'' 1 ''boss'' ShowRaises) = ShowRaises"
    by (simp add: example_env_def)
  have d: "disk example_app = example_fs"
    by (simp add: example_app_def)
  have g: "geometry example_popup =
           \<lparr>rect_x = 5, rect_y = 6, rect_width = 700, rect_height = 500\<rparr>"
    by (simp add: example_popup_def)
  show ?thesis
    using popup_creation_failure
            [OF example_app_facts(1) example_match_elden sp example_resolve_elden t
                example_app_facts(2) example_app_popup_inv f]
    by (simp add: sr example_app_facts g d)
qed

end
